theory Spec2Isabelle
  imports Complex_Main
begin

section \<open>The weather particle system of \<^verbatim>\<open>src/main.ts\<close>\<close>

text \<open>
  This theory embeds the class \<^verbatim>\<open>WeatherParticleSystem\<close> (lines 96 to 269 of
  \<^verbatim>\<open>src/main.ts\<close>): its constructor, \<^verbatim>\<open>updateConfig\<close>, \<^verbatim>\<open>update\<close>,
  \<^verbatim>\<open>emitParticle\<close> and \<^verbatim>\<open>getCount\<close>.

  Conventions of the embedding.
  \<^item> A JavaScript \<^verbatim>\<open>number\<close> is a \<^typ>\<open>real\<close>; there is no infinity and no NaN. The
    arithmetic of the emission scheduler (lines 208 to 212), whose loop count depends on
    it, is the binary64 arithmetic of the language: every sum, difference and quotient
    there is rounded by \<open>fl64\<close>, to the nearest binary64 value, ties to even. The
    arithmetic of the per-particle step (lines 222 to 239) is exact.
  \<^item> The object is a record \<open>system\<close>; a method takes the record and returns the new one.
  \<^item> \<^verbatim>\<open>Math.random()\<close> is the stream \<open>rand\<close> read at the position \<open>rand_ix\<close>; each call
    advances the position by one.
  \<^item> The field \<open>emitCalls\<close> is bookkeeping of the embedding only: it counts the calls of
    \<^verbatim>\<open>emitParticle\<close> made by the emission loop, and no operation reads it.
  \<^item> The scratch members \<^verbatim>\<open>tempMatrix\<close>, \<^verbatim>\<open>tempPosition\<close>, \<^verbatim>\<open>tempQuaternion\<close> and
    \<^verbatim>\<open>tempScale\<close> are written before they are read in every call of \<^verbatim>\<open>update\<close>; they
    are local values here.
\<close>

subsection \<open>Data (lines 9 to 29)\<close>

datatype WeatherType = Rain | Snow | Clear

record ParticleConfig =
  emissionRate :: real
  lifetime :: real
  size_config :: real
  speed :: real
  windStrength :: real
  gravity :: real
  wtype :: WeatherType

text \<open>\<^verbatim>\<open>Partial<ParticleConfig>\<close>: every field may be absent.\<close>

record PartialConfig =
  p_emissionRate :: "real option"
  p_lifetime :: "real option"
  p_size :: "real option"
  p_speed :: "real option"
  p_windStrength :: "real option"
  p_gravity :: "real option"
  p_type :: "WeatherType option"

datatype vec3 = Vector3 (vx: real) (vy: real) (vz: real)

datatype quaternion = Quaternion real real real real

record particle =
  position :: vec3
  velocity :: vec3
  life :: real
  maxLife :: real
  size_particle :: real
  active :: bool
  isSplash :: "bool option"

datatype box3 = Box3 (box_min: vec3) (box_max: vec3)

text \<open>
  A \<^verbatim>\<open>THREE.Matrix4\<close> is kept as the three arguments of \<^verbatim>\<open>Matrix4.compose\<close> that
  produced it: translation, rotation and scale.
\<close>

datatype matrix4 = Compose (m_position: vec3) (m_quaternion: quaternion) (m_scale: vec3)

definition identity_matrix :: matrix4 where
  "identity_matrix = Compose (Vector3 0 0 0) (Quaternion 0 0 0 1) (Vector3 1 1 1)"

text \<open>
  The canvas texture of \<^verbatim>\<open>generateTexture\<close> is its list of gradient colour stops;
  the material keeps the texture and the base colour.
\<close>

type_synonym texture = "(real \<times> string) list"

record material =
  map_texture :: texture
  color :: nat
  mat_needsUpdate :: bool

record camera =
  cam_quaternion :: quaternion

record system =
  particles :: "particle list"
  config :: ParticleConfig
  emitterVolume :: box3
  helper_visible :: bool
  accumulator :: real
  mesh_count :: nat
  instanceMatrix :: "matrix4 list"
  matrix_needsUpdate :: bool
  mesh_material :: material
  rand :: "nat \<Rightarrow> real"
  rand_ix :: nat
  emitCalls :: nat

subsection \<open>Binary64 arithmetic\<close>

text \<open>
  Rounding of a real number to the nearest binary64 value, ties to even: the result is a
  multiple of the unit in the last place, \<open>2\<close> to the power \<open>ulp_exponent\<close>, which is 52
  binary places below the leading bit, and \<open>2\<close> to the power \<open>- 1074\<close> for the subnormal
  numbers. The exponent has no upper limit: a result beyond the largest binary64 number
  is kept, where the language gives infinity.
\<close>

definition round_half_even :: "real \<Rightarrow> int" where
  "round_half_even y =
     (let f = \<lfloor>y\<rfloor>; r = y - of_int f
      in if r < 1 / 2 then f else if 1 / 2 < r then f + 1 else if even f then f else f + 1)"

definition ulp_exponent :: "real \<Rightarrow> int" where
  "ulp_exponent x = max \<lfloor>log 2 \<bar>x\<bar>\<rfloor> (- 1022) - 52"

definition fl64 :: "real \<Rightarrow> real" where
  "fl64 x =
     (if x = 0 then 0
      else of_int (round_half_even (x / 2 powi ulp_exponent x)) * 2 powi ulp_exponent x)"

text \<open>
  The bound on the error of one rounding: the unit roundoff times the magnitude, and
  half of the least subnormal number.
\<close>

definition unit_roundoff :: real where
  "unit_roundoff = 2 powi (- 53)"

definition half_least_subnormal :: real where
  "half_least_subnormal = 2 powi (- 1075)"

definition rounding_slack :: "real \<Rightarrow> real" where
  "rounding_slack a = unit_roundoff * \<bar>a\<bar> + half_least_subnormal"

subsection \<open>Library operations of three.js used by the class\<close>

text \<open>
  Modelled from the spec: \<^verbatim>\<open>Vector3.addScaledVector(v, s)\<close> is three.js code that is not
  under \<^verbatim>\<open>src/\<close>; the spec's integrator has \<open>position += velocity * dt\<close>, componentwise.
\<close>

definition addScaledVector :: "vec3 \<Rightarrow> vec3 \<Rightarrow> real \<Rightarrow> vec3" where
  "addScaledVector p v s = Vector3 (vx p + vx v * s) (vy p + vy v * s) (vz p + vz v * s)"

text \<open>
  Modelled from the spec: \<^verbatim>\<open>MathUtils.randFloat(low, high)\<close> is three.js code that is not
  under \<^verbatim>\<open>src/\<close>; a point drawn uniformly between \<open>low\<close> and \<open>high\<close> from the draw \<open>u\<close> of
  \<^verbatim>\<open>Math.random()\<close>.
\<close>

definition randFloat :: "real \<Rightarrow> real \<Rightarrow> real \<Rightarrow> real" where
  "randFloat low high u = low + u * (high - low)"

text \<open>
  Modelled from the spec: \<^verbatim>\<open>InstancedMesh.setMatrixAt(i, m)\<close> is three.js code that is not
  under \<^verbatim>\<open>src/\<close>; it writes the transform \<open>m\<close> at slot \<open>i\<close> of the instance buffer. A store
  beyond the end of the typed array is dropped, as \<open>list_update\<close> does.
\<close>

definition setMatrixAt :: "nat \<Rightarrow> matrix4 \<Rightarrow> matrix4 list \<Rightarrow> matrix4 list" where
  "setMatrixAt i m buf = buf[i := m]"

text \<open>
  Modelled from the spec: the constructor \<^verbatim>\<open>new THREE.InstancedMesh(geometry, material, n)\<close>
  is three.js code that is not under \<^verbatim>\<open>src/\<close>. It allocates an instance buffer of \<open>n\<close>
  matrices and sets the mesh's \<^verbatim>\<open>count\<close>, the number of instances drawn, to \<open>n\<close>: the
  full capacity is the initial count. The result is the pair of the count and the buffer.
\<close>

definition InstancedMesh_new :: "nat \<Rightarrow> nat \<times> matrix4 list" where
  "InstancedMesh_new n = (n, replicate n identity_matrix)"

subsection \<open>Constructor (lines 112 to 185)\<close>

definition maxParticles :: nat where
  "maxParticles = 10000"

definition generateTexture :: "ParticleConfig \<Rightarrow> texture" where
  "generateTexture cfg =
     (if wtype cfg = Rain
      then [(0, ''rgba(255,255,255,1)''), (1, ''rgba(0,0,0,0)'')]
      else [(0, ''rgba(255,255,255,1)''), (1/2, ''rgba(255,255,255,0.5)''),
            (1, ''rgba(0,0,0,0)'')])"

definition createMaterial :: "ParticleConfig \<Rightarrow> material" where
  "createMaterial cfg =
     \<lparr>map_texture = generateTexture cfg, color = 0xffffff, mat_needsUpdate = False\<rparr>"

definition fresh_particle :: particle where
  "fresh_particle =
     \<lparr>position = Vector3 0 0 0, velocity = Vector3 0 0 0,
      life = 0, maxLife = 0, size_particle = 0, active = False, isSplash = None\<rparr>"

text \<open>
  The constructor: the pool of \<open>maxParticles\<close> inactive particles (lines 123 to 130), the
  material, and the instanced mesh (line 135). The random stream is a parameter.
\<close>

definition construct :: "ParticleConfig \<Rightarrow> (nat \<Rightarrow> real) \<Rightarrow> system" where
  "construct cfg rnd =
     \<lparr>particles = replicate maxParticles fresh_particle,
      config = cfg,
      emitterVolume = Box3 (Vector3 (-60) 30 (-60)) (Vector3 60 45 60),
      helper_visible = False,
      accumulator = 0,
      mesh_count = fst (InstancedMesh_new maxParticles),
      instanceMatrix = snd (InstancedMesh_new maxParticles),
      matrix_needsUpdate = False,
      mesh_material = createMaterial cfg,
      rand = rnd,
      rand_ix = 0,
      emitCalls = 0\<rparr>"

definition setHelperVisibility :: "bool \<Rightarrow> system \<Rightarrow> system" where
  "setHelperVisibility visible s = s\<lparr>helper_visible := visible\<rparr>"

subsection \<open>\<^verbatim>\<open>updateConfig\<close> (lines 187 to 202)\<close>

text \<open>\<^verbatim>\<open>Object.assign(this.config, newConfig)\<close>: every field present overwrites.\<close>

definition assign_config :: "ParticleConfig \<Rightarrow> PartialConfig \<Rightarrow> ParticleConfig" where
  "assign_config cfg new =
     \<lparr>emissionRate = (case p_emissionRate new of None \<Rightarrow> emissionRate cfg | Some v \<Rightarrow> v),
      lifetime = (case p_lifetime new of None \<Rightarrow> lifetime cfg | Some v \<Rightarrow> v),
      size_config = (case p_size new of None \<Rightarrow> size_config cfg | Some v \<Rightarrow> v),
      speed = (case p_speed new of None \<Rightarrow> speed cfg | Some v \<Rightarrow> v),
      windStrength = (case p_windStrength new of None \<Rightarrow> windStrength cfg | Some v \<Rightarrow> v),
      gravity = (case p_gravity new of None \<Rightarrow> gravity cfg | Some v \<Rightarrow> v),
      wtype = (case p_type new of None \<Rightarrow> wtype cfg | Some v \<Rightarrow> v)\<rparr>"

definition updateConfig :: "PartialConfig \<Rightarrow> system \<Rightarrow> system" where
  "updateConfig newConfig s =
     (let oldType = wtype (config s);
          s1 = s\<lparr>config := assign_config (config s) newConfig\<rparr>
      in case p_type newConfig of
           None \<Rightarrow> s1
         | Some t \<Rightarrow>
             if t \<noteq> oldType
             then s1\<lparr>mesh_material :=
                      \<lparr>map_texture = generateTexture (config s1),
                       color = (if wtype (config s1) = Rain then 0xaaddff else 0xffffff),
                       mat_needsUpdate = True\<rparr>\<rparr>
             else s1)"

subsection \<open>\<^verbatim>\<open>emitParticle\<close> (lines 250 to 266)\<close>

text \<open>
  \<^verbatim>\<open>this.particles.find(pt => !pt.active)\<close> returns a reference to the first inactive
  particle object; the assignments that follow mutate that object, which is the update
  of the pool at the object's index.
\<close>

fun find_free :: "particle list \<Rightarrow> nat option" where
  "find_free [] = None"
| "find_free (pt # pts) = (if \<not> active pt then Some 0 else map_option Suc (find_free pts))"

definition emitParticle :: "system \<Rightarrow> system" where
  "emitParticle s =
     (case find_free (particles s) of
        None \<Rightarrow> s
      | Some i \<Rightarrow>
          let cfg = config s;
              lo = box_min (emitterVolume s);
              hi = box_max (emitterVolume s);
              p = particles s ! i;
              p1 = p\<lparr>active := True\<rparr>;
              p2 = p1\<lparr>position :=
                      Vector3 (randFloat (vx lo) (vx hi) (rand s (rand_ix s)))
                              (randFloat (vy lo) (vy hi) (rand s (rand_ix s + 1)))
                              (randFloat (vz lo) (vz hi) (rand s (rand_ix s + 2)))\<rparr>;
              p3 = p2\<lparr>life := lifetime cfg\<rparr>;
              p4 = p3\<lparr>size_particle := size_config cfg\<rparr>;
              p5 = (if wtype cfg = Rain
                    then p4\<lparr>velocity := Vector3 0 (- speed cfg) 0\<rparr>
                    else p4\<lparr>velocity := Vector3 0 (- speed cfg * 0.5) 0\<rparr>)
          in s\<lparr>particles := (particles s)[i := p5], rand_ix := rand_ix s + 3\<rparr>)"

subsection \<open>\<^verbatim>\<open>update\<close> (lines 204 to 248)\<close>

text \<open>The body of the \<^verbatim>\<open>while\<close> loop (lines 211 and 212).\<close>

definition emit_step :: "real \<Rightarrow> system \<Rightarrow> system" where
  "emit_step interval s =
     (let s1 = emitParticle s
      in s1\<lparr>accumulator := fl64 (accumulator s1 - interval), emitCalls := emitCalls s1 + 1\<rparr>)"

text \<open>
  The \<^verbatim>\<open>while\<close> loop of line 210. The loop of the source does not end when the
  interval is not positive, nor when the accumulator is so large that subtracting the
  interval rounds back to it; so the loop is a partial function: \<open>None\<close> is
  non-termination.
\<close>

partial_function (option) emit_loop :: "real \<Rightarrow> system \<Rightarrow> system option" where
  "emit_loop interval s =
     (if accumulator s \<ge> interval then emit_loop interval (emit_step interval s) else Some s)"

definition emission_interval :: "ParticleConfig \<Rightarrow> real" where
  "emission_interval cfg = fl64 (1.0 / max 1 (emissionRate cfg))"

text \<open>Lines 205 to 214: the emission scheduler.\<close>

definition emission_phase :: "real \<Rightarrow> system \<Rightarrow> system option" where
  "emission_phase dt s =
     (let isClear = (wtype (config s) = Clear)
      in if \<not> isClear
         then let s1 = s\<lparr>accumulator := fl64 (accumulator s + dt)\<rparr>;
                  interval = emission_interval (config s1)
              in emit_loop interval s1
         else Some s)"

text \<open>
  Lines 222 to 226: ageing and the physics step of one particle. The wind overrides the
  horizontal velocity, and the position advances with the velocity just computed.
\<close>

definition integrate :: "real \<Rightarrow> ParticleConfig \<Rightarrow> particle \<Rightarrow> particle" where
  "integrate dt cfg p =
     (let p1 = p\<lparr>life := life p - dt\<rparr>;
          p2 = p1\<lparr>velocity := Vector3 (vx (velocity p1)) (vy (velocity p1) + gravity cfg * dt)
                                      (vz (velocity p1))\<rparr>;
          p3 = p2\<lparr>velocity := Vector3 (windStrength cfg) (vy (velocity p2)) (vz (velocity p2))\<rparr>
      in p3\<lparr>position := addScaledVector (position p3) (velocity p3) dt\<rparr>)"

text \<open>Lines 233 to 241: the matrix composed for a particle that is drawn.\<close>

definition compose_matrix :: "ParticleConfig \<Rightarrow> quaternion \<Rightarrow> particle \<Rightarrow> matrix4" where
  "compose_matrix cfg tempQuaternion p =
     (let tempPosition = position p;
          tempScale = (if wtype cfg = Rain
                       then Vector3 (size_particle p * 0.08) (size_particle p * 6.0) 1
                       else Vector3 (size_particle p) (size_particle p) 1)
      in Compose tempPosition tempQuaternion tempScale)"

text \<open>
  The body of the \<^verbatim>\<open>for\<close> loop over the pool (lines 220 to 243) for one particle: it
  takes the particle, the running \<^verbatim>\<open>activeCount\<close> and the instance buffer, and returns
  the three after the iteration.
\<close>

definition particle_body ::
  "real \<Rightarrow> ParticleConfig \<Rightarrow> quaternion \<Rightarrow> particle \<Rightarrow> nat \<Rightarrow> matrix4 list
     \<Rightarrow> particle \<times> nat \<times> matrix4 list" where
  "particle_body dt cfg tempQuaternion p activeCount buf =
     (if \<not> active p then (p, activeCount, buf)
      else
        let p' = integrate dt cfg p
        in if vy (position p') < 0 \<or> life p' \<le> 0
           then (p'\<lparr>active := False\<rparr>, activeCount, buf)
           else (p', activeCount + 1,
                 setMatrixAt activeCount (compose_matrix cfg tempQuaternion p') buf))"

text \<open>The \<^verbatim>\<open>for (const p of this.particles)\<close> loop, in pool order.\<close>

fun particle_loop ::
  "real \<Rightarrow> ParticleConfig \<Rightarrow> quaternion \<Rightarrow> particle list \<Rightarrow> nat \<Rightarrow> matrix4 list
     \<Rightarrow> particle list \<times> nat \<times> matrix4 list" where
  "particle_loop dt cfg q [] activeCount buf = ([], activeCount, buf)"
| "particle_loop dt cfg q (p # ps) activeCount buf =
     (case particle_body dt cfg q p activeCount buf of
        (p', activeCount', buf') \<Rightarrow>
          (case particle_loop dt cfg q ps activeCount' buf' of
             (ps', n, buf'') \<Rightarrow> (p' # ps', n, buf'')))"

text \<open>Lines 216 to 247: the per-particle pass and the instance count.\<close>

definition particle_phase :: "real \<Rightarrow> camera \<Rightarrow> system \<Rightarrow> system" where
  "particle_phase dt cam s =
     (case particle_loop dt (config s) (cam_quaternion cam) (particles s) 0 (instanceMatrix s) of
        (ps', activeCount, buf') \<Rightarrow>
          s\<lparr>particles := ps', instanceMatrix := buf', mesh_count := activeCount,
            matrix_needsUpdate := True\<rparr>)"

definition update :: "real \<Rightarrow> camera \<Rightarrow> system \<Rightarrow> system option" where
  "update dt cam s = map_option (particle_phase dt cam) (emission_phase dt s)"

definition getCount :: "system \<Rightarrow> nat" where
  "getCount s = mesh_count s"

subsection \<open>Derived notions used in the statements\<close>

text \<open>
  What one iteration of the \<^verbatim>\<open>for\<close> loop does to the particle itself: the first
  component of \<open>particle_body\<close>, which depends on neither the count nor the buffer.
\<close>

definition step_particle :: "real \<Rightarrow> ParticleConfig \<Rightarrow> particle \<Rightarrow> particle" where
  "step_particle dt cfg p = fst (particle_body dt cfg (Quaternion 0 0 0 1) p 0 [])"

text \<open>
  A condition under which the \<^verbatim>\<open>while\<close> loop of a frame ends: the kind is clear, so
  that the loop is not entered, or twice the rounding error at the accumulator is at most
  the interval, so that every pass lowers the accumulator by half an interval at least.
\<close>

definition loop_ends :: "real \<Rightarrow> system \<Rightarrow> bool" where
  "loop_ends dt s \<longleftrightarrow>
     wtype (config s) = Clear \<or>
     2 * rounding_slack (fl64 (accumulator s + dt)) \<le> emission_interval (config s)"


text \<open>The velocity that \<^verbatim>\<open>emitParticle\<close> assigns (lines 264 and 265).\<close>

definition emission_velocity :: "ParticleConfig \<Rightarrow> vec3" where
  "emission_velocity cfg =
     (if wtype cfg = Rain then Vector3 0 (- speed cfg) 0 else Vector3 0 (- speed cfg * 0.5) 0)"

text \<open>A sequence of frames: \<^verbatim>\<open>update\<close> called once per frame with that frame's \<open>dt\<close>.\<close>

fun run_frames :: "(real \<times> camera) list \<Rightarrow> system \<Rightarrow> system option" where
  "run_frames [] s = Some s"
| "run_frames ((dt, cam) # fs) s =
     (case update dt cam s of None \<Rightarrow> None | Some s' \<Rightarrow> run_frames fs s')"

subsection \<open>The inputs the application supplies\<close>

text \<open>The configuration the application starts with (lines 689 to 691).\<close>

definition initial_config :: ParticleConfig where
  "initial_config =
     \<lparr>emissionRate = 0, lifetime = 2, size_config = 0.8, speed = 18, windStrength = 0.5,
      gravity = - 9.8, wtype = Clear\<rparr>"

text \<open>A partial configuration with no field present.\<close>

definition no_change :: PartialConfig where
  "no_change =
     \<lparr>p_emissionRate = None, p_lifetime = None, p_size = None, p_speed = None,
      p_windStrength = None, p_gravity = None, p_type = None\<rparr>"

text \<open>A camera that is not rotated, and a random stream that always draws one half.\<close>

definition camera0 :: camera where
  "camera0 = \<lparr>cam_quaternion = Quaternion 0 0 0 1\<rparr>"

definition rand_half :: "nat \<Rightarrow> real" where
  "rand_half k = 1 / 2"

text \<open>
  The presets the control panel sends when the weather type is chosen (lines 751 to 770).
\<close>

definition rain_preset :: PartialConfig where
  "rain_preset = no_change\<lparr>p_type := Some Rain, p_emissionRate := Some 2500,
      p_speed := Some 18, p_windStrength := Some 0.5\<rparr>"

definition snow_preset :: PartialConfig where
  "snow_preset = no_change\<lparr>p_type := Some Snow, p_emissionRate := Some 1500,
      p_speed := Some 3, p_windStrength := Some 1.5\<rparr>"

text \<open>The system right after the user has chosen rain for the first time.\<close>

definition rain_start :: system where
  "rain_start = updateConfig rain_preset (construct initial_config rand_half)"

text \<open>A pool in which every slot is active.\<close>

definition full_pool :: system where
  "full_pool = (construct initial_config rand_half)
     \<lparr>particles := replicate maxParticles (fresh_particle\<lparr>active := True\<rparr>)\<rparr>"

text \<open>The drop that the first emission after \<open>rain_start\<close> puts into slot 0.\<close>

definition first_drop :: particle where
  "first_drop = \<lparr>position = Vector3 0 (75 / 2) 0, velocity = Vector3 0 (- 18) 0,
      life = 2, maxLife = 0, size_particle = 0.8, active = True, isSplash = None\<rparr>"


text \<open>
  The state after the scheduler of the first rain frame, of 1/2048 s: one pass of the loop.
\<close>

definition first_emission :: system where
  "first_emission =
     emit_step (emission_interval (config rain_start))
       (rain_start\<lparr>accumulator := fl64 (accumulator rain_start + 1 / 2048)\<rparr>)"

text \<open>
  The first rain frame, the change to snow that follows it, and the next frame; and the
  drop of slot 0 after the first frame.
\<close>

definition after_rain_frame :: system where
  "after_rain_frame = particle_phase (1 / 2048) camera0 first_emission"

definition switched_to_snow :: system where
  "switched_to_snow = updateConfig snow_preset after_rain_frame"

definition after_snow_frame :: system where
  "after_snow_frame =
     particle_phase (1 / 2048) camera0
       (switched_to_snow\<lparr>accumulator := fl64 (accumulator switched_to_snow + 1 / 2048)\<rparr>)"

definition drop1 :: particle where
  "drop1 = step_particle (1 / 2048) (config rain_start) first_drop"

text \<open>
  The rain system after the density slider, whose range starts at 0 (line 774), has been
  drawn to 0; and a partial configuration with a negative rate and a negative lifetime.
\<close>

definition zero_rate :: system where
  "zero_rate = updateConfig (no_change\<lparr>p_emissionRate := Some 0\<rparr>) rain_start"

definition negative_config :: PartialConfig where
  "negative_config = no_change\<lparr>p_emissionRate := Some (- 5), p_lifetime := Some (- 1)\<rparr>"

subsection \<open>The rounding error of a frame, and further states\<close>


text \<open>
  The frame of 1/1024 s that follows the change to snow: the flake that its scheduler
  puts into slot 1, and the state after its scheduler.
\<close>

definition snow_flake :: particle where
  "snow_flake = \<lparr>position = Vector3 0 (75 / 2) 0, velocity = Vector3 0 (- (3 / 2)) 0,
      life = 2, maxLife = 0, size_particle = 0.8, active = True, isSplash = None\<rparr>"

definition snow_emission :: system where
  "snow_emission =
     emit_step (emission_interval (config switched_to_snow))
       (switched_to_snow\<lparr>accumulator := fl64 (accumulator switched_to_snow + 1 / 1024)\<rparr>)"

text \<open>
  A pool with the slots 0, 2 and 3 active and every other slot free; the drop of slot 2
  has 1/4096 s left to live.
\<close>

definition high_drop :: particle where
  "high_drop = first_drop\<lparr>position := Vector3 2 44 (- 3)\<rparr>"

definition dying_drop :: particle where
  "dying_drop = first_drop\<lparr>life := 1 / 4096\<rparr>"

definition far_drop :: particle where
  "far_drop = first_drop\<lparr>position := Vector3 1 40 1\<rparr>"

definition sparse_pool :: system where
  "sparse_pool = rain_start
     \<lparr>particles := high_drop # fresh_particle # dying_drop # far_drop
                    # replicate 9996 fresh_particle\<rparr>"

text \<open>The state after the scheduler of a frame of 1/2048 s from \<open>sparse_pool\<close>.\<close>

definition sparse_emission :: system where
  "sparse_emission =
     emit_step (emission_interval (config sparse_pool))
       (sparse_pool\<lparr>accumulator := fl64 (accumulator sparse_pool + 1 / 2048)\<rparr>)"

text \<open>The rain system with the density slider at 144, and at 5.\<close>

definition rate_144 :: system where
  "rate_144 = updateConfig (no_change\<lparr>p_emissionRate := Some 144\<rparr>) rain_start"


section \<open>Auxiliary facts\<close>

subsection \<open>The per-particle pass\<close>

lemma integrate_active: "active (integrate dt cfg p) = active p"
  by (simp add: integrate_def Let_def)

lemma integrate_life: "life (integrate dt cfg p) = life p - dt"
  by (simp add: integrate_def Let_def)

lemma integrate_size: "size_particle (integrate dt cfg p) = size_particle p"
  by (simp add: integrate_def Let_def)

lemma integrate_velocity:
  "velocity (integrate dt cfg p) =
     Vector3 (windStrength cfg) (vy (velocity p) + gravity cfg * dt) (vz (velocity p))"
  by (simp add: integrate_def Let_def)

lemma integrate_position:
  "position (integrate dt cfg p) = addScaledVector (position p) (velocity (integrate dt cfg p)) dt"
  by (simp add: integrate_def Let_def)

lemma step_particle_eq:
  "step_particle dt cfg p =
     (if \<not> active p then p
      else if vy (position (integrate dt cfg p)) < 0 \<or> life (integrate dt cfg p) \<le> 0
           then (integrate dt cfg p)\<lparr>active := False\<rparr>
           else integrate dt cfg p)"
  by (simp add: step_particle_def particle_body_def Let_def)

lemma step_particle_active:
  "active (step_particle dt cfg p) \<longleftrightarrow>
     active p \<and> \<not> (vy (position (integrate dt cfg p)) < 0 \<or> life (integrate dt cfg p) \<le> 0)"
  by (simp add: step_particle_eq integrate_active)

lemma body_particle: "fst (particle_body dt cfg q p n buf) = step_particle dt cfg p"
  by (simp add: particle_body_def step_particle_def Let_def)

lemma body_count:
  "fst (snd (particle_body dt cfg q p n buf)) = (if active (step_particle dt cfg p) then n + 1 else n)"
  by (simp add: particle_body_def step_particle_def Let_def integrate_active)

lemma body_buffer:
  "snd (snd (particle_body dt cfg q p n buf)) =
     (if active (step_particle dt cfg p)
      then setMatrixAt n (compose_matrix cfg q (step_particle dt cfg p)) buf else buf)"
  by (simp add: particle_body_def step_particle_def Let_def integrate_active)

lemma loop_cons:
  "particle_loop dt cfg q (p # ps) n buf =
     (let b = particle_body dt cfg q p n buf;
          l = particle_loop dt cfg q ps (fst (snd b)) (snd (snd b))
      in (fst b # fst l, fst (snd l), snd (snd l)))"
  by (simp add: Let_def split: prod.splits)

lemma loop_particles: "fst (particle_loop dt cfg q ps n buf) = map (step_particle dt cfg) ps"
proof (induction ps arbitrary: n buf)
  case Nil
  show ?case by simp
next
  case (Cons p ps)
  show ?case by (simp only: loop_cons Let_def fst_conv list.map Cons body_particle)
qed

lemma loop_count:
  "fst (snd (particle_loop dt cfg q ps n buf)) =
     n + length (filter active (map (step_particle dt cfg) ps))"
proof (induction ps arbitrary: n buf)
  case Nil
  show ?case by simp
next
  case (Cons p ps)
  show ?case
    by (simp add: loop_cons Let_def Cons body_particle body_count del: particle_loop.simps)
qed

lemma loop_buffer_length: "length (snd (snd (particle_loop dt cfg q ps n buf))) = length buf"
proof (induction ps arbitrary: n buf)
  case Nil
  show ?case by simp
next
  case (Cons p ps)
  show ?case
    by (simp add: loop_cons Let_def Cons body_buffer setMatrixAt_def del: particle_loop.simps)
qed

lemma loop_buffer:
  "n + length ps \<le> length buf \<Longrightarrow>
   snd (snd (particle_loop dt cfg q ps n buf)) =
     take n buf @ map (compose_matrix cfg q) (filter active (map (step_particle dt cfg) ps))
       @ drop (n + length (filter active (map (step_particle dt cfg) ps))) buf"
proof (induction ps arbitrary: n buf)
  case Nil
  show ?case by simp
next
  case (Cons p ps)
  define n' where "n' = fst (snd (particle_body dt cfg q p n buf))"
  define buf' where "buf' = snd (snd (particle_body dt cfg q p n buf))"
  have n': "n' = (if active (step_particle dt cfg p) then n + 1 else n)"
    by (simp add: n'_def body_count)
  have buf': "buf' = (if active (step_particle dt cfg p)
                      then setMatrixAt n (compose_matrix cfg q (step_particle dt cfg p)) buf
                      else buf)"
    by (simp add: buf'_def body_buffer)
  have len: "length buf' = length buf"
    using buf' by (simp add: setMatrixAt_def)
  have le: "n' + length ps \<le> length buf'"
    using Cons.prems n' len by simp
  have eq: "snd (snd (particle_loop dt cfg q (p # ps) n buf)) =
            snd (snd (particle_loop dt cfg q ps n' buf'))"
    by (simp add: loop_cons Let_def n'_def buf'_def del: particle_loop.simps)
  show ?case
  proof (cases "active (step_particle dt cfg p)")
    case False
    then show ?thesis
      using eq Cons.IH[OF le] n' buf' by simp
  next
    case True
    have nlt: "n < length buf"
      using Cons.prems by simp
    have t: "take (n + 1) (buf[n := m]) = take n buf @ [m]" for m
      using nlt by (simp add: take_Suc_conv_app_nth)
    show ?thesis
      using eq Cons.IH[OF le] n' buf' True t by (simp add: setMatrixAt_def)
  qed
qed

lemma particle_phase_eq:
  "particle_phase dt cam s =
     (let l = particle_loop dt (config s) (cam_quaternion cam) (particles s) 0 (instanceMatrix s)
      in s\<lparr>particles := fst l, instanceMatrix := snd (snd l), mesh_count := fst (snd l),
           matrix_needsUpdate := True\<rparr>)"
  by (simp add: particle_phase_def Let_def split: prod.splits)

lemma phase_particles:
  "particles (particle_phase dt cam s) = map (step_particle dt (config s)) (particles s)"
  by (simp add: particle_phase_eq Let_def loop_particles)

lemma phase_count:
  "mesh_count (particle_phase dt cam s) =
     length (filter active (map (step_particle dt (config s)) (particles s)))"
  by (simp add: particle_phase_eq Let_def loop_count)

lemma phase_buffer:
  assumes "length (particles s) \<le> length (instanceMatrix s)"
  shows "instanceMatrix (particle_phase dt cam s) =
           map (compose_matrix (config s) (cam_quaternion cam))
               (filter active (map (step_particle dt (config s)) (particles s)))
           @ drop (length (filter active (map (step_particle dt (config s)) (particles s))))
                  (instanceMatrix s)"
proof -
  have "0 + length (particles s) \<le> length (instanceMatrix s)"
    using assms by simp
  from loop_buffer[OF this, of dt "config s" "cam_quaternion cam"]
  show ?thesis
    by (simp add: particle_phase_eq Let_def)
qed

lemma phase_buffer_length:
  "length (instanceMatrix (particle_phase dt cam s)) = length (instanceMatrix s)"
  by (simp add: particle_phase_eq Let_def loop_buffer_length)

lemma phase_other:
  "config (particle_phase dt cam s) = config s"
  "accumulator (particle_phase dt cam s) = accumulator s"
  "emitCalls (particle_phase dt cam s) = emitCalls s"
  "rand_ix (particle_phase dt cam s) = rand_ix s"
  "rand (particle_phase dt cam s) = rand s"
  by (simp_all add: particle_phase_eq Let_def)

subsection \<open>Binary64 rounding\<close>

lemma slack_constants_pos: "0 < unit_roundoff" "0 < half_least_subnormal"
  unfolding unit_roundoff_def half_least_subnormal_def by (rule zero_less_power_int; simp)+

lemma rounding_slack_pos: "0 < rounding_slack a"
  using slack_constants_pos by (simp add: rounding_slack_def add_nonneg_pos)

lemma round_half_even_error: "\<bar>of_int (round_half_even y) - y\<bar> \<le> 1 / 2"
proof -
  have "of_int \<lfloor>y\<rfloor> \<le> y" "y < of_int \<lfloor>y\<rfloor> + 1" by linarith+
  then show ?thesis
    by (auto simp add: round_half_even_def Let_def)
qed

lemma round_half_even_nonneg: "0 \<le> y \<Longrightarrow> 0 \<le> round_half_even y"
proof -
  assume "0 \<le> y"
  then have "0 \<le> \<lfloor>y\<rfloor>" by simp
  then show ?thesis by (auto simp add: round_half_even_def Let_def)
qed

lemma round_half_even_of_int: "round_half_even (of_int k) = k"
  by (simp add: round_half_even_def Let_def)

lemma two_powi_pos: "0 < (2::real) powi k"
  by simp

lemma powr_powi: "(2::real) powr real_of_int k = 2 powi k"
  by (simp add: powr_real_of_int')

lemma floor_log2_bounds:
  assumes "x \<noteq> 0"
  shows "2 powi \<lfloor>log 2 \<bar>x\<bar>\<rfloor> \<le> \<bar>x\<bar>" and "\<bar>x\<bar> < 2 powi (\<lfloor>log 2 \<bar>x\<bar>\<rfloor> + 1)"
proof -
  have pos: "0 < \<bar>x\<bar>" using assms by simp
  have "(2::real) powr real_of_int \<lfloor>log 2 \<bar>x\<bar>\<rfloor> \<le> \<bar>x\<bar>
      \<and> \<bar>x\<bar> < 2 powr real_of_int (\<lfloor>log 2 \<bar>x\<bar>\<rfloor> + 1)"
    using floor_log_eq_powr_iff[OF pos, of 2 "\<lfloor>log 2 \<bar>x\<bar>\<rfloor>"] by simp
  then show "2 powi \<lfloor>log 2 \<bar>x\<bar>\<rfloor> \<le> \<bar>x\<bar>" and "\<bar>x\<bar> < 2 powi (\<lfloor>log 2 \<bar>x\<bar>\<rfloor> + 1)"
    unfolding powr_powi by blast+
qed

lemma floor_log2_eq:
  assumes "2 powi e \<le> \<bar>x\<bar>" and "\<bar>x\<bar> < 2 powi (e + 1)"
  shows "\<lfloor>log 2 \<bar>x\<bar>\<rfloor> = e"
proof -
  have pos: "0 < \<bar>x\<bar>" using assms(1) two_powi_pos[of e] by linarith
  have "(2::real) powr real_of_int e \<le> \<bar>x\<bar> \<and> \<bar>x\<bar> < 2 powr real_of_int (e + 1)"
    unfolding powr_powi using assms by blast
  moreover have "(1::real) < 2" by simp
  ultimately show ?thesis
    using floor_log_eq_powr_iff[OF pos, of 2 e] by blast
qed

lemma fl64_error: "\<bar>fl64 x - x\<bar> \<le> rounding_slack x"
proof (cases "x = 0")
  case True
  then show ?thesis using rounding_slack_pos[of 0] by (simp add: fl64_def)
next
  case False
  define E where "E = ulp_exponent x"
  define p where "p = (2::real) powi E"
  have p: "0 < p" by (simp add: p_def)
  define r where "r = round_half_even (x / p)"
  have f: "fl64 x = of_int r * p"
    using False by (simp add: fl64_def r_def p_def E_def)
  have "fl64 x - x = (of_int r - x / p) * p"
    using p by (simp add: f field_simps)
  then have "\<bar>fl64 x - x\<bar> = \<bar>of_int r - x / p\<bar> * p"
    using p by (simp add: abs_mult)
  also have "\<dots> \<le> 1 / 2 * p"
    using round_half_even_error[of "x / p"] p by (simp add: r_def)
  finally have b: "\<bar>fl64 x - x\<bar> \<le> p / 2" by simp
  have half: "p / 2 = 2 powi (E - 1)"
    by (simp add: p_def power_int_diff)
  define L where "L = \<lfloor>log 2 \<bar>x\<bar>\<rfloor>"
  show ?thesis
  proof (cases "- 1022 \<le> L")
    case True
    then have E: "E - 1 = - 53 + L" by (simp add: E_def ulp_exponent_def L_def)
    have "p / 2 = unit_roundoff * 2 powi L"
      unfolding half E unit_roundoff_def by (rule power_int_add) simp
    also have "\<dots> \<le> unit_roundoff * \<bar>x\<bar>"
      using floor_log2_bounds(1)[OF False]
      by (intro mult_left_mono) (simp_all add: L_def unit_roundoff_def)
    finally have "p / 2 \<le> rounding_slack x"
      by (simp add: rounding_slack_def half_least_subnormal_def)
    then show ?thesis
      using b by linarith
  next
    case False
    then have E: "E - 1 = - 1075" by (simp add: E_def ulp_exponent_def L_def)
    have "p / 2 = half_least_subnormal"
      unfolding half E half_least_subnormal_def ..
    moreover have "0 \<le> unit_roundoff * \<bar>x\<bar>"
      by (simp add: unit_roundoff_def)
    ultimately have "p / 2 \<le> rounding_slack x"
      by (simp add: rounding_slack_def)
    then show ?thesis
      using b by linarith
  qed
qed

lemma fl64_nonneg: "0 \<le> x \<Longrightarrow> 0 \<le> fl64 x"
  by (simp add: fl64_def round_half_even_nonneg)

lemma fl64_representable:
  assumes "x = of_int m * 2 powi e" and "\<bar>m\<bar> < 2 ^ 53" and "- 1074 \<le> e"
  shows "fl64 x = x"
proof (cases "x = 0")
  case True
  then show ?thesis by (simp add: fl64_def)
next
  case False
  define L where "L = \<lfloor>log 2 \<bar>x\<bar>\<rfloor>"
  define E where "E = ulp_exponent x"
  have "\<bar>x\<bar> = of_int \<bar>m\<bar> * 2 powi e"
    by (simp add: assms(1) abs_mult)
  also have "\<dots> < 2 ^ 53 * 2 powi e"
  proof -
    have "real_of_int \<bar>m\<bar> < 2 ^ 53"
      using assms(2) by (metis of_int_less_numeral_power_cancel_iff)
    then show ?thesis by simp
  qed
  also have "\<dots> = 2 powi (53 + e)"
    by (simp add: power_int_add)
  finally have up: "\<bar>x\<bar> < 2 powi (53 + e)" .
  have "L < 53 + e"
  proof (rule ccontr)
    assume "\<not> L < 53 + e"
    then have "(2::real) powi (53 + e) \<le> 2 powi L"
      by (intro power_int_increasing) simp_all
    then show False
      using floor_log2_bounds(1)[OF False] up by (simp add: L_def)
  qed
  then have Ee: "E \<le> e"
    using assms(3) by (simp add: E_def ulp_exponent_def L_def)
  define k where "k = m * 2 ^ nat (e - E)"
  have "(2::real) powi e = 2 powi (e - E) * 2 powi E"
    by (simp add: power_int_add[symmetric])
  also have "(2::real) powi (e - E) = 2 ^ nat (e - E)"
    using Ee by (simp add: power_int_def)
  finally have xk: "x = of_int k * 2 powi E"
    by (simp add: assms(1) k_def)
  then have "x / 2 powi E = of_int k"
    by simp
  then have "fl64 x = of_int k * 2 powi E"
    using False by (simp add: fl64_def E_def round_half_even_of_int)
  then show ?thesis
    using xk by simp
qed

lemma fl64_eval:
  assumes "2 powi e \<le> \<bar>x\<bar>" and "\<bar>x\<bar> < 2 powi (e + 1)" and "- 1022 \<le> e"
  shows "fl64 x = of_int (round_half_even (x / 2 powi (e - 52))) * 2 powi (e - 52)"
proof -
  have "0 < \<bar>x\<bar>" using assms(1) two_powi_pos[of e] by linarith
  then have "x \<noteq> 0" by simp
  moreover have "ulp_exponent x = e - 52"
    using floor_log2_eq[OF assms(1,2)] assms(3) by (simp add: ulp_exponent_def)
  ultimately show ?thesis by (simp add: fl64_def)
qed

subsection \<open>The emission loop\<close>

lemma emitParticle_other:
  "accumulator (emitParticle s) = accumulator s"
  "config (emitParticle s) = config s"
  "emitCalls (emitParticle s) = emitCalls s"
  "instanceMatrix (emitParticle s) = instanceMatrix s"
  "mesh_count (emitParticle s) = mesh_count s"
  "length (particles (emitParticle s)) = length (particles s)"
  by (simp_all add: emitParticle_def Let_def split: option.splits)

lemma emit_step_other:
  "accumulator (emit_step i s) = fl64 (accumulator s - i)"
  "emitCalls (emit_step i s) = emitCalls s + 1"
  "config (emit_step i s) = config s"
  "instanceMatrix (emit_step i s) = instanceMatrix s"
  "length (particles (emit_step i s)) = length (particles s)"
  by (simp_all add: emit_step_def Let_def emitParticle_other)

lemma funpow_emit_step:
  "emitCalls ((emit_step i ^^ n) s) = emitCalls s + n"
  "config ((emit_step i ^^ n) s) = config s"
  "instanceMatrix ((emit_step i ^^ n) s) = instanceMatrix s"
  "length (particles ((emit_step i ^^ n) s)) = length (particles s)"
  by (induction n) (simp_all add: emit_step_other)

lemma funpow_accumulator:
  "accumulator ((emit_step i ^^ n) s) = ((\<lambda>a. fl64 (a - i)) ^^ n) (accumulator s)"
  by (induction n) (simp_all add: emit_step_other)

text \<open>The loop returns after \<open>n\<close> passes when its test holds \<open>n\<close> times and then fails.\<close>

lemma emit_loop_returns:
  assumes "\<forall>k<n. i \<le> accumulator ((emit_step i ^^ k) s)"
      and "accumulator ((emit_step i ^^ n) s) < i"
  shows "emit_loop i s = Some ((emit_step i ^^ n) s)"
  using assms
proof (induction n arbitrary: s)
  case 0
  then show ?case by (subst emit_loop.simps) simp
next
  case (Suc n)
  have ge: "i \<le> accumulator s"
    using Suc.prems(1) by (metis funpow_0 zero_less_Suc)
  have t: "\<forall>k<n. i \<le> accumulator ((emit_step i ^^ k) (emit_step i s))"
  proof (intro allI impI)
    fix k assume "k < n"
    then have "Suc k < Suc n" by simp
    then have "i \<le> accumulator ((emit_step i ^^ Suc k) s)"
      using Suc.prems(1) by blast
    then show "i \<le> accumulator ((emit_step i ^^ k) (emit_step i s))"
      by (simp add: funpow_swap1)
  qed
  have e: "accumulator ((emit_step i ^^ n) (emit_step i s)) < i"
    using Suc.prems(2) by (simp add: funpow_swap1)
  have "emit_loop i s = emit_loop i (emit_step i s)"
    using ge by (subst emit_loop.simps) simp
  also have "\<dots> = Some ((emit_step i ^^ n) (emit_step i s))"
    by (rule Suc.IH[OF t e])
  finally show ?case by (simp add: funpow_swap1)
qed

text \<open>Conversely, when the loop returns it has made such a number of passes.\<close>

lemma emit_loop_Some:
  assumes "emit_loop i s = Some t"
  shows "\<exists>n. t = (emit_step i ^^ n) s \<and>
     (\<forall>k<n. i \<le> accumulator ((emit_step i ^^ k) s)) \<and> accumulator t < i"
proof (rule emit_loop.raw_induct[OF _ assms])
  fix loop :: "real \<Rightarrow> system \<Rightarrow> system option" and i s t
  assume IH: "\<And>i s t. loop i s = Some t \<Longrightarrow>
      \<exists>n. t = (emit_step i ^^ n) s \<and>
        (\<forall>k<n. i \<le> accumulator ((emit_step i ^^ k) s)) \<and> accumulator t < i"
    and eq: "(if i \<le> accumulator s then loop i (emit_step i s) else Some s) = Some t"
  show "\<exists>n. t = (emit_step i ^^ n) s \<and>
      (\<forall>k<n. i \<le> accumulator ((emit_step i ^^ k) s)) \<and> accumulator t < i"
  proof (cases "i \<le> accumulator s")
    case False
    then have "t = s" using eq by simp
    then show ?thesis using False by (intro exI[of _ 0]) simp
  next
    case True
    then have "loop i (emit_step i s) = Some t" using eq by simp
    from IH[OF this] obtain n where n: "t = (emit_step i ^^ n) (emit_step i s)"
        "\<forall>k<n. i \<le> accumulator ((emit_step i ^^ k) (emit_step i s))" "accumulator t < i"
      by blast
    have "\<forall>k<Suc n. i \<le> accumulator ((emit_step i ^^ k) s)"
    proof (intro allI impI)
      fix k assume k: "k < Suc n"
      show "i \<le> accumulator ((emit_step i ^^ k) s)"
      proof (cases k)
        case 0
        then show ?thesis using True by simp
      next
        case (Suc j)
        then have "j < n" using k by simp
        then show ?thesis using n(2) Suc by (simp add: funpow_swap1)
      qed
    qed
    then show ?thesis
      using n(1,3) by (intro exI[of _ "Suc n"]) (simp add: funpow_swap1)
  qed
qed

lemma rounding_slack_mono: "\<bar>x\<bar> \<le> \<bar>y\<bar> \<Longrightarrow> rounding_slack x \<le> rounding_slack y"
  using slack_constants_pos(1) by (simp add: rounding_slack_def mult_left_mono)

text \<open>
  When twice the rounding error at the bound \<open>A\<close> of the accumulator is at most the
  interval, the test fails after finitely many passes, and the accumulator then differs
  from the exact difference by one rounding error for each pass at most.
\<close>

lemma emit_loop_bounded:
  assumes b: "2 * rounding_slack A \<le> i"
      and a: "accumulator s \<le> A"
  shows "\<exists>n. (\<forall>k<n. i \<le> accumulator ((emit_step i ^^ k) s)) \<and>
     accumulator ((emit_step i ^^ n) s) < i \<and>
     (0 \<le> accumulator s \<longrightarrow> 0 \<le> accumulator ((emit_step i ^^ n) s)) \<and>
     \<bar>accumulator ((emit_step i ^^ n) s) - (accumulator s - real n * i)\<bar>
       \<le> real n * rounding_slack A"
proof -
  have ipos: "0 < i"
    using b rounding_slack_pos[of A] by linarith
  have main: "accumulator s \<le> real m * (i / 2) \<Longrightarrow> accumulator s \<le> A \<Longrightarrow>
     \<exists>n. (\<forall>k<n. i \<le> accumulator ((emit_step i ^^ k) s)) \<and>
       accumulator ((emit_step i ^^ n) s) < i \<and>
       (0 \<le> accumulator s \<longrightarrow> 0 \<le> accumulator ((emit_step i ^^ n) s)) \<and>
       \<bar>accumulator ((emit_step i ^^ n) s) - (accumulator s - real n * i)\<bar>
         \<le> real n * rounding_slack A" for m s
  proof (induction m arbitrary: s)
    case 0
    then have "accumulator s < i" using ipos by simp
    then show ?case by (intro exI[of _ 0]) simp
  next
    case (Suc m)
    show ?case
    proof (cases "accumulator s < i")
      case True
      then show ?thesis by (intro exI[of _ 0]) simp
    next
      case False
      define x where "x = accumulator s - i"
      define s' where "s' = emit_step i s"
      have x0: "0 \<le> x" using False by (simp add: x_def)
      have xA: "\<bar>x\<bar> \<le> \<bar>A\<bar>" using x0 Suc.prems(2) ipos by (simp add: x_def)
      have acc': "accumulator s' = fl64 x"
        by (simp add: s'_def x_def emit_step_other)
      have err: "\<bar>fl64 x - x\<bar> \<le> rounding_slack A"
        using fl64_error[of x] rounding_slack_mono[OF xA] by linarith
      have half: "rounding_slack A \<le> i / 2" using b by simp
      have up: "accumulator s' \<le> accumulator s - i / 2"
        using err half by (simp add: acc' x_def abs_le_iff)
      have m: "accumulator s' \<le> real m * (i / 2)"
        using up Suc.prems(1) by (simp add: algebra_simps)
      have A': "accumulator s' \<le> A"
        using up Suc.prems(2) ipos by simp
      have nn: "0 \<le> accumulator s'"
        using fl64_nonneg[OF x0] by (simp add: acc')
      from Suc.IH[OF m A'] obtain n where n:
        "\<forall>k<n. i \<le> accumulator ((emit_step i ^^ k) s')"
        "accumulator ((emit_step i ^^ n) s') < i"
        "0 \<le> accumulator ((emit_step i ^^ n) s')"
        "\<bar>accumulator ((emit_step i ^^ n) s') - (accumulator s' - real n * i)\<bar>
           \<le> real n * rounding_slack A"
        using nn by blast
      have sw: "(emit_step i ^^ Suc k) s = (emit_step i ^^ k) s'" for k
        by (simp add: s'_def funpow_swap1)
      have tests: "\<forall>k<Suc n. i \<le> accumulator ((emit_step i ^^ k) s)"
      proof (intro allI impI)
        fix k assume k: "k < Suc n"
        show "i \<le> accumulator ((emit_step i ^^ k) s)"
        proof (cases k)
          case 0
          then show ?thesis using False by simp
        next
          case (Suc j)
          then have "j < n" using k by simp
          then show ?thesis using n(1) unfolding Suc sw by simp
        qed
      qed
      have e: "\<bar>accumulator ((emit_step i ^^ Suc n) s) - (accumulator s - real (Suc n) * i)\<bar>
           \<le> real (Suc n) * rounding_slack A"
      proof -
        have "accumulator ((emit_step i ^^ Suc n) s) - (accumulator s - real (Suc n) * i)
            = (accumulator ((emit_step i ^^ n) s') - (accumulator s' - real n * i))
              + (fl64 x - x)"
          unfolding sw by (simp add: acc' x_def algebra_simps)
        then show ?thesis
          using n(4) err by (simp add: algebra_simps)
      qed
      show ?thesis
        using tests n(2,3) e unfolding sw[symmetric] by (intro exI[of _ "Suc n"]) blast
    qed
  qed
  obtain m where m: "accumulator s \<le> real m * (i / 2)"
  proof -
    obtain m :: nat where "accumulator s / (i / 2) \<le> real m"
      using real_arch_simple by blast
    then have "accumulator s \<le> real m * (i / 2)"
      using ipos by (simp add: pos_divide_le_eq)
    then show ?thesis using that by blast
  qed
  show ?thesis by (rule main[OF m a])
qed

lemma emission_phase_clear: "wtype (config s) = Clear \<Longrightarrow> emission_phase dt s = Some s"
  by (simp add: emission_phase_def)

lemma emission_phase_loop:
  "wtype (config s) \<noteq> Clear \<Longrightarrow>
   emission_phase dt s =
     emit_loop (emission_interval (config s)) (s\<lparr>accumulator := fl64 (accumulator s + dt)\<rparr>)"
  by (simp add: emission_phase_def Let_def)

lemma emission_phase_preserves:
  assumes "emission_phase dt s = Some s1"
  shows "config s1 = config s" and "instanceMatrix s1 = instanceMatrix s"
    and "length (particles s1) = length (particles s)"
proof -
  have "config s1 = config s \<and> instanceMatrix s1 = instanceMatrix s \<and>
      length (particles s1) = length (particles s)"
  proof (cases "wtype (config s) = Clear")
    case True
    then show ?thesis using assms by (simp add: emission_phase_clear)
  next
    case False
    then obtain n where "s1 = (emit_step (emission_interval (config s)) ^^ n)
        (s\<lparr>accumulator := fl64 (accumulator s + dt)\<rparr>)"
      using assms emit_loop_Some by (simp add: emission_phase_loop) blast
    then show ?thesis by (simp add: funpow_emit_step)
  qed
  then show "config s1 = config s" and "instanceMatrix s1 = instanceMatrix s"
    and "length (particles s1) = length (particles s)"
    by blast+
qed

lemma update_eq:
  "emission_phase dt s = Some s1 \<Longrightarrow> update dt cam s = Some (particle_phase dt cam s1)"
  by (simp add: update_def)

lemma update_Some:
  "update dt cam s = Some s' \<Longrightarrow>
   \<exists>s1. emission_phase dt s = Some s1 \<and> s' = particle_phase dt cam s1"
  by (auto simp add: update_def)

lemma update_preserves:
  assumes "update dt cam s = Some s'"
  shows "config s' = config s" and "length (particles s') = length (particles s)"
    and "length (instanceMatrix s') = length (instanceMatrix s)"
proof -
  obtain s1 where s1: "emission_phase dt s = Some s1" "s' = particle_phase dt cam s1"
    using update_Some[OF assms] by blast
  note p = emission_phase_preserves[OF s1(1)]
  show "config s' = config s" and "length (particles s') = length (particles s)"
    and "length (instanceMatrix s') = length (instanceMatrix s)"
    by (simp_all add: s1(2) phase_other phase_particles phase_buffer_length p)
qed

text \<open>Under the condition \<open>loop_ends\<close> the scheduler, and so the frame, returns.\<close>

lemma emission_phase_returns:
  assumes "loop_ends dt s"
  shows "\<exists>s1. emission_phase dt s = Some s1"
proof (cases "wtype (config s) = Clear")
  case True
  then show ?thesis by (simp add: emission_phase_clear)
next
  case False
  let ?i = "emission_interval (config s)"
  let ?s0 = "s\<lparr>accumulator := fl64 (accumulator s + dt)\<rparr>"
  have b: "2 * rounding_slack \<bar>fl64 (accumulator s + dt)\<bar> \<le> ?i"
    using assms False by (simp add: loop_ends_def rounding_slack_def)
  have a: "accumulator ?s0 \<le> \<bar>fl64 (accumulator s + dt)\<bar>"
    by simp
  obtain n where "\<forall>k<n. ?i \<le> accumulator ((emit_step ?i ^^ k) ?s0)"
      "accumulator ((emit_step ?i ^^ n) ?s0) < ?i"
    using emit_loop_bounded[OF b a] by blast
  then have "emit_loop ?i ?s0 = Some ((emit_step ?i ^^ n) ?s0)"
    by (rule emit_loop_returns)
  then show ?thesis
    using False by (simp add: emission_phase_loop)
qed

lemma update_returns: "loop_ends dt s \<Longrightarrow> \<exists>s'. update dt cam s = Some s'"
  using emission_phase_returns[of dt s] by (auto simp add: update_def)

subsection \<open>What an emission does to the pool\<close>

lemma find_free_None: "find_free ps = None \<longleftrightarrow> (\<forall>p\<in>set ps. active p)"
  by (induction ps) auto

lemma find_free_Some: "find_free ps = Some j \<Longrightarrow> j < length ps \<and> \<not> active (ps ! j)"
proof (induction ps arbitrary: j)
  case Nil
  then show ?case by simp
next
  case (Cons p ps)
  then show ?case by (cases "active p") auto
qed

lemma find_free_full: "find_free ps = None \<longleftrightarrow> length (filter active ps) = length ps"
proof -
  have "(\<forall>p\<in>set ps. active p) \<longleftrightarrow> length (filter active ps) = length ps"
  proof (induction ps)
    case Nil
    show ?case by simp
  next
    case (Cons p ps)
    have "length (filter active ps) \<noteq> Suc (length ps)"
      using length_filter_le[of active ps] by linarith
    then show ?case using Cons by auto
  qed
  then show ?thesis by (simp add: find_free_None)
qed

lemma filter_update_count:
  "j < length ps \<Longrightarrow> \<not> P (ps ! j) \<Longrightarrow> P q \<Longrightarrow>
   length (filter P (ps[j := q])) = Suc (length (filter P ps))"
proof (induction ps arbitrary: j)
  case Nil
  then show ?case by simp
next
  case (Cons p ps)
  then show ?case by (cases j) auto
qed

lemma emitParticle_particles:
  "find_free (particles s) = Some j \<Longrightarrow>
   particles (emitParticle s) =
     (particles s)[j := (particles s ! j)
        \<lparr>active := True,
         position := Vector3
            (randFloat (vx (box_min (emitterVolume s))) (vx (box_max (emitterVolume s)))
               (rand s (rand_ix s)))
            (randFloat (vy (box_min (emitterVolume s))) (vy (box_max (emitterVolume s)))
               (rand s (rand_ix s + 1)))
            (randFloat (vz (box_min (emitterVolume s))) (vz (box_max (emitterVolume s)))
               (rand s (rand_ix s + 2))),
         life := lifetime (config s),
         size_particle := size_config (config s),
         velocity := emission_velocity (config s)\<rparr>]"
  by (simp add: emitParticle_def Let_def emission_velocity_def)

lemma emitParticle_random:
  "rand (emitParticle s) = rand s"
  "emitterVolume (emitParticle s) = emitterVolume s"
  "rand_ix (emitParticle s) = (if find_free (particles s) = None then rand_ix s else rand_ix s + 3)"
  by (simp_all add: emitParticle_def Let_def split: option.splits)

lemma emitParticle_active_count:
  "length (filter active (particles (emitParticle s))) =
     (if find_free (particles s) = None then length (filter active (particles s))
      else Suc (length (filter active (particles s))))"
proof (cases "find_free (particles s)")
  case None
  then show ?thesis by (simp add: emitParticle_def)
next
  case (Some j)
  show ?thesis
    using find_free_Some[OF Some]
    by (simp add: emitParticle_particles[OF Some] Some filter_update_count)
qed

lemma emit_step_particles: "particles (emit_step iv s) = particles (emitParticle s)"
  by (simp add: emit_step_def Let_def)

lemma emit_step_random:
  "rand (emit_step iv s) = rand s"
  "emitterVolume (emit_step iv s) = emitterVolume s"
  "rand_ix (emit_step iv s) = rand_ix (emitParticle s)"
  by (simp_all add: emit_step_def Let_def emitParticle_random)

text \<open>
  After \<open>n\<close> passes the first free slots have been filled, as many as there were, and
  three random numbers have been drawn for each.
\<close>

lemma funpow_active_count:
  "length (filter active (particles ((emit_step iv ^^ n) s))) =
     min (length (particles s)) (length (filter active (particles s)) + n)"
proof (induction n)
  case 0
  show ?case by (simp add: min_absorb2)
next
  case (Suc n)
  let ?t = "(emit_step iv ^^ n) s"
  have len: "length (particles ?t) = length (particles s)"
    by (simp add: funpow_emit_step)
  have le: "length (filter active (particles s)) \<le> length (particles s)"
    by simp
  show ?case
    using Suc le
    by (simp add: emit_step_particles emitParticle_active_count find_free_full len min_def)
qed

lemma funpow_rand_ix:
  "rand_ix ((emit_step iv ^^ n) s) =
     rand_ix s + 3 * (length (filter active (particles ((emit_step iv ^^ n) s)))
                      - length (filter active (particles s)))"
proof (induction n)
  case 0
  show ?case by simp
next
  case (Suc n)
  let ?t = "(emit_step iv ^^ n) s"
  have len: "length (particles ?t) = length (particles s)"
    by (simp add: funpow_emit_step)
  have le: "length (filter active (particles s)) \<le> length (particles s)"
    by simp
  have c: "length (filter active (particles ?t)) =
      min (length (particles s)) (length (filter active (particles s)) + n)"
    by (rule funpow_active_count)
  show ?case
    using Suc le c
    by (simp add: emit_step_random emitParticle_random emit_step_particles
        emitParticle_active_count find_free_full len min_def)
qed


subsection \<open>Changes of configuration and clear frames\<close>

lemma updateConfig_other:
  "accumulator (updateConfig c s) = accumulator s"
  "emitCalls (updateConfig c s) = emitCalls s"
  "particles (updateConfig c s) = particles s"
  "mesh_count (updateConfig c s) = mesh_count s"
  "instanceMatrix (updateConfig c s) = instanceMatrix s"
  "config (updateConfig c s) = assign_config (config s) c"
  by (simp_all add: updateConfig_def Let_def split: option.splits)

lemma rain_start_config:
  "config rain_start = \<lparr>emissionRate = 2500, lifetime = 2, size_config = 0.8, speed = 18,
      windStrength = 0.5, gravity = - 9.8, wtype = Rain\<rparr>"
  by (simp add: rain_start_def updateConfig_other assign_config_def rain_preset_def no_change_def
      construct_def initial_config_def)

lemma run_frames_clear:
  assumes "wtype (config s) = Clear"
  shows "\<exists>s'. run_frames fs s = Some s' \<and> accumulator s' = accumulator s \<and>
     emitCalls s' = emitCalls s \<and> rand_ix s' = rand_ix s \<and> config s' = config s \<and>
     length (particles s') = length (particles s) \<and>
     (\<forall>i<length (particles s). active (particles s' ! i) \<longrightarrow> active (particles s ! i))"
  using assms
proof (induction fs arbitrary: s)
  case Nil
  then show ?case by simp
next
  case (Cons f fs)
  obtain dt cam where f: "f = (dt, cam)" by (cases f)
  let ?t = "particle_phase dt cam s"
  have u: "update dt cam s = Some ?t"
    using Cons.prems by (simp add: update_def emission_phase_clear)
  have c: "wtype (config ?t) = Clear"
    using Cons.prems by (simp add: phase_other)
  obtain s' where s': "run_frames fs ?t = Some s'" "accumulator s' = accumulator ?t"
     "emitCalls s' = emitCalls ?t" "rand_ix s' = rand_ix ?t" "config s' = config ?t"
     "length (particles s') = length (particles ?t)"
     "\<forall>i<length (particles ?t). active (particles s' ! i) \<longrightarrow> active (particles ?t ! i)"
    using Cons.IH[OF c] by blast
  have len: "length (particles ?t) = length (particles s)"
    by (simp add: phase_particles)
  have act: "\<forall>i<length (particles s). active (particles ?t ! i) \<longrightarrow> active (particles s ! i)"
    by (simp add: phase_particles step_particle_active)
  have "run_frames (f # fs) s = Some s'"
    using f u s'(1) by simp
  then show ?case
    using s' len act by (simp add: phase_other)
qed

lemma emitParticle_slot:
  assumes "i < length (particles s)"
  shows "particles (emitParticle s) ! i = particles s ! i \<or>
     (\<not> active (particles s ! i) \<and> active (particles (emitParticle s) ! i) \<and>
      life (particles (emitParticle s) ! i) = lifetime (config s) \<and>
      velocity (particles (emitParticle s) ! i) = emission_velocity (config s) \<and>
      size_particle (particles (emitParticle s) ! i) = size_config (config s))"
proof (cases "find_free (particles s)")
  case None
  then show ?thesis by (simp add: emitParticle_def)
next
  case (Some j)
  note e = emitParticle_particles[OF Some]
  show ?thesis
  proof (cases "i = j")
    case True
    then show ?thesis
      using find_free_Some[OF Some] assms by (simp add: e)
  next
    case False
    then show ?thesis by (simp add: e)
  qed
qed

lemma funpow_slot:
  assumes "i < length (particles s)"
  shows "particles ((emit_step iv ^^ n) s) ! i = particles s ! i \<or>
     (\<not> active (particles s ! i) \<and> active (particles ((emit_step iv ^^ n) s) ! i) \<and>
      life (particles ((emit_step iv ^^ n) s) ! i) = lifetime (config s) \<and>
      velocity (particles ((emit_step iv ^^ n) s) ! i) = emission_velocity (config s) \<and>
      size_particle (particles ((emit_step iv ^^ n) s) ! i) = size_config (config s))"
proof (induction n)
  case 0
  show ?case by simp
next
  case (Suc n)
  let ?t = "(emit_step iv ^^ n) s"
  have len: "i < length (particles ?t)"
    using assms by (simp add: funpow_emit_step)
  have cfg: "config ?t = config s"
    by (simp add: funpow_emit_step)
  have st: "particles ((emit_step iv ^^ Suc n) s) = particles (emitParticle ?t)"
    by (simp add: emit_step_particles)
  from emitParticle_slot[OF len] Suc show ?case
    unfolding st cfg by metis
qed

subsection \<open>The concrete states\<close>

lemma pool_cons: "replicate maxParticles p = p # replicate 9999 p"
proof -
  have "maxParticles = Suc 9999"
    by (simp add: maxParticles_def)
  then have "replicate maxParticles p = replicate (Suc 9999) p"
    by (rule arg_cong)
  then show ?thesis
    by (simp only: replicate_Suc)
qed

lemma rain_start_fields:
  "particles rain_start = fresh_particle # replicate 9999 fresh_particle"
  "instanceMatrix rain_start = identity_matrix # replicate 9999 identity_matrix"
  "accumulator rain_start = 0"
  "emitCalls rain_start = 0"
  "rand rain_start = rand_half"
  "rand_ix rain_start = 0"
  "emitterVolume rain_start = Box3 (Vector3 (-60) 30 (-60)) (Vector3 60 45 60)"
  by (simp_all add: rain_start_def updateConfig_def Let_def rain_preset_def no_change_def
      construct_def InstancedMesh_new_def pool_cons)

lemma emit_first_drop:
  assumes "particles s = fresh_particle # ps"
      and "config s = config rain_start"
      and "emitterVolume s = emitterVolume rain_start"
      and "rand s = rand_half"
  shows "particles (emitParticle s) = first_drop # ps"
proof -
  have f: "find_free (particles s) = Some 0"
    by (simp add: assms(1) fresh_particle_def)
  show ?thesis
    by (simp add: emitParticle_particles[OF f] assms rain_start_fields rain_start_config
        emission_velocity_def randFloat_def rand_half_def first_drop_def fresh_particle_def)
qed


lemma fl64_small_powers:
  "fl64 (1 / 2048) = 1 / 2048" "fl64 (1 / 4096) = 1 / 4096" "fl64 1 = 1"
  using fl64_representable[of "1 / 2048" 1 "- 11"] fl64_representable[of "1 / 4096" 1 "- 12"]
    fl64_representable[of 1 1 0]
  by simp_all

lemma interval_rain:
  "emission_interval (config rain_start) = 7378697629483821 / 18446744073709551616"
proof -
  have "fl64 (1 / 2500) = 7378697629483821 / 18446744073709551616"
    using fl64_eval[of "- 12" "1 / 2500"] by (simp add: round_half_even_def Let_def)
  then show ?thesis
    by (simp add: rain_start_config emission_interval_def)
qed

lemma first_rest:
  "fl64 (1628501625257171 / 18446744073709551616)
     = 1628501625257171 / 18446744073709551616"
  using fl64_representable[of "1628501625257171 / 18446744073709551616" 1628501625257171 "- 64"]
  by simp

lemma first_emission_fields:
  "particles first_emission = first_drop # replicate 9999 fresh_particle"
  "config first_emission = config rain_start"
  "instanceMatrix first_emission = identity_matrix # replicate 9999 identity_matrix"
  "emitCalls first_emission = 1"
  "accumulator first_emission = 1628501625257171 / 18446744073709551616"
  using emit_first_drop[of "rain_start\<lparr>accumulator := fl64 (accumulator rain_start + 1 / 2048)\<rparr>"
      "replicate 9999 fresh_particle"]
  by (simp_all add: first_emission_def emit_step_other emit_step_particles rain_start_fields
      interval_rain fl64_small_powers first_rest)

lemma emission_phase_rain_start:
  "emission_phase (1 / 2048) rain_start = Some first_emission"
proof -
  let ?i = "emission_interval (config rain_start)"
  let ?s0 = "rain_start\<lparr>accumulator := fl64 (accumulator rain_start + 1 / 2048)\<rparr>"
  have f: "first_emission = (emit_step ?i ^^ 1) ?s0"
    by (simp add: first_emission_def)
  have t: "\<forall>k<1. ?i \<le> accumulator ((emit_step ?i ^^ k) ?s0)"
    by (simp add: interval_rain rain_start_fields fl64_small_powers)
  have e: "accumulator ((emit_step ?i ^^ 1) ?s0) < ?i"
    using first_emission_fields(5) unfolding f by (simp add: interval_rain)
  have nc: "wtype (config rain_start) \<noteq> Clear"
    by (simp add: rain_start_config)
  show ?thesis
    unfolding emission_phase_loop[OF nc] f by (rule emit_loop_returns[OF t e])
qed


lemma step_fresh: "step_particle dt cfg fresh_particle = fresh_particle"
  by (simp add: step_particle_eq fresh_particle_def)

lemma single_active_phase:
  assumes "particles s = p # replicate n fresh_particle"
      and "active (step_particle dt (config s) p)"
      and "instanceMatrix s = m # ms"
  shows "particles (particle_phase dt cam s)
           = step_particle dt (config s) p # replicate n fresh_particle"
    and "mesh_count (particle_phase dt cam s) = 1"
    and "instanceMatrix (particle_phase dt cam s)
           = compose_matrix (config s) (cam_quaternion cam) (step_particle dt (config s) p) # ms"
proof -
  have na: "\<not> active fresh_particle"
    by (simp add: fresh_particle_def)
  show "particles (particle_phase dt cam s)
           = step_particle dt (config s) p # replicate n fresh_particle"
    by (simp add: phase_particles assms(1) step_fresh)
  show "mesh_count (particle_phase dt cam s) = 1"
    using assms(2) na by (simp add: phase_count assms(1) step_fresh)
  have "particle_loop dt (config s) (cam_quaternion cam) (replicate n fresh_particle) k buf
      = (replicate n fresh_particle, k, buf)" for k buf
    by (induction n) (simp_all add: particle_body_def na)
  then show "instanceMatrix (particle_phase dt cam s)
           = compose_matrix (config s) (cam_quaternion cam) (step_particle dt (config s) p) # ms"
    using assms(2)
    by (simp add: particle_phase_eq Let_def assms(1,3) loop_cons body_particle body_count
        body_buffer setMatrixAt_def del: particle_loop.simps)
qed

lemma drop1_fields:
  "active drop1"
  "size_particle drop1 = 0.8"
  "life drop1 = 2 - 1 / 2048"
  "velocity drop1 = Vector3 0.5 (- 18 + - 9.8 * (1 / 2048)) 0"
  "position drop1 = Vector3 (0.5 * (1 / 2048)) (75 / 2 + (- 18 + - 9.8 * (1 / 2048)) * (1 / 2048)) 0"
  by (simp_all add: drop1_def step_particle_eq integrate_def Let_def addScaledVector_def
      first_drop_def rain_start_config)

lemma after_rain_frame_fields:
  "particles after_rain_frame = drop1 # replicate 9999 fresh_particle"
  "mesh_count after_rain_frame = 1"
  "instanceMatrix after_rain_frame
     = compose_matrix (config rain_start) (cam_quaternion camera0) drop1
       # replicate 9999 identity_matrix"
  "config after_rain_frame = config rain_start"
  "accumulator after_rain_frame = 1628501625257171 / 18446744073709551616"
proof -
  have a: "active (step_particle (1 / 2048) (config first_emission) first_drop)"
    using drop1_fields(1) by (simp add: drop1_def first_emission_fields)
  note s = single_active_phase[OF first_emission_fields(1) a first_emission_fields(3), of camera0]
  show "particles after_rain_frame = drop1 # replicate 9999 fresh_particle"
    using s(1) by (simp add: after_rain_frame_def drop1_def first_emission_fields)
  show "mesh_count after_rain_frame = 1"
    using s(2) by (simp add: after_rain_frame_def)
  show "instanceMatrix after_rain_frame
     = compose_matrix (config rain_start) (cam_quaternion camera0) drop1
       # replicate 9999 identity_matrix"
    using s(3) by (simp add: after_rain_frame_def drop1_def first_emission_fields)
  show "config after_rain_frame = config rain_start"
    by (simp add: after_rain_frame_def phase_other first_emission_fields)
  show "accumulator after_rain_frame = 1628501625257171 / 18446744073709551616"
    by (simp add: after_rain_frame_def phase_other first_emission_fields)
qed

lemma switched_config:
  "config switched_to_snow = \<lparr>emissionRate = 1500, lifetime = 2, size_config = 0.8, speed = 3,
      windStrength = 1.5, gravity = - 9.8, wtype = Snow\<rparr>"
  by (simp add: switched_to_snow_def updateConfig_other after_rain_frame_fields rain_start_config
      assign_config_def snow_preset_def no_change_def)

lemma update_after_switch:
  "update (1 / 2048) camera0 switched_to_snow = Some after_snow_frame"
proof -
  let ?i = "emission_interval (config switched_to_snow)"
  let ?s0 = "switched_to_snow\<lparr>accumulator := fl64 (accumulator switched_to_snow + 1 / 2048)\<rparr>"
  have "fl64 (1 / 1500) = 6148914691236517 / 9223372036854775808"
    using fl64_eval[of "- 11" "1 / 1500"] by (simp add: round_half_even_def Let_def)
  then have i: "?i = 6148914691236517 / 9223372036854775808"
    by (simp add: switched_config emission_interval_def)
  have a: "accumulator switched_to_snow = 1628501625257171 / 18446744073709551616"
    by (simp add: switched_to_snow_def updateConfig_other after_rain_frame_fields)
  have "fl64 (1628501625257171 / 18446744073709551616 + 1 / 2048)
      = 2658925219999541 / 4611686018427387904"
    using fl64_eval[of "- 11" "1628501625257171 / 18446744073709551616 + 1 / 2048"]
    by (simp add: round_half_even_def Let_def)
  then have a0: "accumulator ?s0 = 2658925219999541 / 4611686018427387904"
    by (simp add: a)
  have e: "accumulator ((emit_step ?i ^^ 0) ?s0) < ?i"
    unfolding i using a0 by simp
  have c: "wtype (config switched_to_snow) \<noteq> Clear"
    by (simp add: switched_config)
  have "emit_loop ?i ?s0 = Some ((emit_step ?i ^^ 0) ?s0)"
    by (rule emit_loop_returns[OF _ e]) simp
  then have "emission_phase (1 / 2048) switched_to_snow = Some ?s0"
    unfolding emission_phase_loop[OF c] by simp
  then show ?thesis
    by (simp add: update_def after_snow_frame_def)
qed

text \<open>
  The loop test reads the accumulator and the interval alone: two states with the same
  accumulator and configuration make the same number of passes.
\<close>

lemma update_same_schedule:
  assumes "accumulator a = accumulator b" and "config a = config b"
      and "update dt cam a = Some t"
  shows "\<exists>t'. update dt cam b = Some t' \<and> emitCalls t' - emitCalls b = emitCalls t - emitCalls a"
proof (cases "wtype (config a) = Clear")
  case True
  then have "t = particle_phase dt cam a" "update dt cam b = Some (particle_phase dt cam b)"
    using assms by (simp_all add: update_def emission_phase_clear)
  then show ?thesis by (simp add: phase_other)
next
  case False
  let ?i = "emission_interval (config a)"
  let ?a0 = "a\<lparr>accumulator := fl64 (accumulator a + dt)\<rparr>"
  let ?b0 = "b\<lparr>accumulator := fl64 (accumulator b + dt)\<rparr>"
  obtain a1 where a1: "emission_phase dt a = Some a1" "t = particle_phase dt cam a1"
    using update_Some[OF assms(3)] by blast
  obtain n where n: "a1 = (emit_step ?i ^^ n) ?a0"
      "\<forall>k<n. ?i \<le> accumulator ((emit_step ?i ^^ k) ?a0)" "accumulator a1 < ?i"
    using a1(1) emit_loop_Some unfolding emission_phase_loop[OF False] by blast
  have same: "accumulator ((emit_step ?i ^^ k) ?b0) = accumulator ((emit_step ?i ^^ k) ?a0)" for k
    by (simp add: funpow_accumulator assms(1))
  have tb: "\<forall>k<n. ?i \<le> accumulator ((emit_step ?i ^^ k) ?b0)"
    using n(2) by (simp add: same)
  have eb: "accumulator ((emit_step ?i ^^ n) ?b0) < ?i"
    using n(3) by (simp add: same n(1))
  have nb: "wtype (config b) \<noteq> Clear"
    using False assms(2) by simp
  have "emission_phase dt b = Some ((emit_step ?i ^^ n) ?b0)"
    unfolding emission_phase_loop[OF nb] assms(2)[symmetric] by (rule emit_loop_returns[OF tb eb])
  then have "update dt cam b = Some (particle_phase dt cam ((emit_step ?i ^^ n) ?b0))"
    by (rule update_eq)
  then show ?thesis
    by (simp add: a1(2) n(1) phase_other funpow_emit_step)
qed

lemma find_free_replicate: "0 < n \<Longrightarrow> \<not> active p \<Longrightarrow> find_free (replicate n p) = Some 0"
  by (cases n) simp_all

lemma replicate_cons: "0 < n \<Longrightarrow> replicate n x = x # replicate (n - 1) x"
  by (cases n) simp_all

lemma half_least_subnormal_small: "half_least_subnormal \<le> 1 / 2 ^ 64"
proof -
  have "(2::real) powi (- 1075) \<le> 2 powi (- 64)"
    by (rule power_int_increasing) simp_all
  then show ?thesis
    by (simp add: half_least_subnormal_def)
qed

lemma snow_interval:
  "emission_interval (config switched_to_snow) = 6148914691236517 / 9223372036854775808"
proof -
  have "fl64 (1 / 1500) = 6148914691236517 / 9223372036854775808"
    using fl64_eval[of "- 11" "1 / 1500"] by (simp add: round_half_even_def Let_def)
  then show ?thesis
    by (simp add: switched_config emission_interval_def)
qed

lemma switched_fields:
  "particles switched_to_snow = drop1 # replicate 9999 fresh_particle"
  "accumulator switched_to_snow = 1628501625257171 / 18446744073709551616"
  "instanceMatrix switched_to_snow
     = compose_matrix (config rain_start) (cam_quaternion camera0) drop1
       # replicate 9999 identity_matrix"
  "rand switched_to_snow = rand_half"
  "emitterVolume switched_to_snow = Box3 (Vector3 (-60) 30 (-60)) (Vector3 60 45 60)"
  by (simp_all add: switched_to_snow_def updateConfig_other after_rain_frame_fields)
    (simp_all add: updateConfig_def Let_def snow_preset_def no_change_def after_rain_frame_def
      particle_phase_eq first_emission_def emit_step_random rain_start_fields)

lemma snow_emission_fields:
  "particles snow_emission = drop1 # snow_flake # replicate 9998 fresh_particle"
  "config snow_emission = config switched_to_snow"
  "instanceMatrix snow_emission = instanceMatrix switched_to_snow"
  "accumulator snow_emission = 3672535376133061 / 9223372036854775808"
proof -
  let ?s0 = "switched_to_snow\<lparr>accumulator := fl64 (accumulator switched_to_snow + 1 / 1024)\<rparr>"
  have r: "replicate 9999 fresh_particle = fresh_particle # replicate 9998 fresh_particle"
    using replicate_cons[of 9999 fresh_particle] by simp
  have na: "\<not> active fresh_particle"
    by (simp add: fresh_particle_def)
  have f: "find_free (particles ?s0) = Some 1"
    using na by (simp add: switched_fields drop1_fields find_free_replicate)
  show "particles snow_emission = drop1 # snow_flake # replicate 9998 fresh_particle"
  proof -
    have p0: "particles ?s0 = drop1 # fresh_particle # replicate 9998 fresh_particle"
      by (simp add: switched_fields r)
    show ?thesis
      unfolding snow_emission_def emit_step_particles emitParticle_particles[OF f] p0
      by (simp add: switched_fields(4,5) switched_config emission_velocity_def randFloat_def
          rand_half_def snow_flake_def fresh_particle_def)
  qed
  show "config snow_emission = config switched_to_snow"
    and "instanceMatrix snow_emission = instanceMatrix switched_to_snow"
    by (simp_all add: snow_emission_def emit_step_other)
  have a0: "fl64 (accumulator switched_to_snow + 1 / 1024)
      = 4910725033684789 / 4611686018427387904"
    using fl64_eval[of "- 10" "1628501625257171 / 18446744073709551616 + 1 / 1024"]
    by (simp add: round_half_even_def Let_def switched_fields)
  have a1: "fl64 (3672535376133061 / 9223372036854775808)
      = 3672535376133061 / 9223372036854775808"
    using fl64_representable[of "3672535376133061 / 9223372036854775808" 3672535376133061 "- 63"]
    by simp
  show "accumulator snow_emission = 3672535376133061 / 9223372036854775808"
    by (simp add: snow_emission_def emit_step_other a0 snow_interval a1)
qed

lemma emission_phase_snow:
  "emission_phase (1 / 1024) switched_to_snow = Some snow_emission"
proof -
  let ?i = "emission_interval (config switched_to_snow)"
  let ?s0 = "switched_to_snow\<lparr>accumulator := fl64 (accumulator switched_to_snow + 1 / 1024)\<rparr>"
  have f: "snow_emission = (emit_step ?i ^^ 1) ?s0"
    by (simp add: snow_emission_def)
  have a0: "fl64 (accumulator switched_to_snow + 1 / 1024)
      = 4910725033684789 / 4611686018427387904"
    using fl64_eval[of "- 10" "1628501625257171 / 18446744073709551616 + 1 / 1024"]
    by (simp add: round_half_even_def Let_def switched_fields)
  have t: "\<forall>k<1. ?i \<le> accumulator ((emit_step ?i ^^ k) ?s0)"
    by (simp add: snow_interval a0)
  have e: "accumulator ((emit_step ?i ^^ 1) ?s0) < ?i"
    using snow_emission_fields(4) unfolding f by (simp add: snow_interval)
  have nc: "wtype (config switched_to_snow) \<noteq> Clear"
    by (simp add: switched_config)
  show ?thesis
    unfolding emission_phase_loop[OF nc] f by (rule emit_loop_returns[OF t e])
qed

lemma snow_frame_particles:
  "filter active (particles (particle_phase (1 / 1024) camera0 snow_emission))
     = [step_particle (1 / 1024) (config switched_to_snow) drop1,
        step_particle (1 / 1024) (config switched_to_snow) snow_flake]"
  "size_particle (step_particle (1 / 1024) (config switched_to_snow) drop1) = 0.8"
  "size_particle (step_particle (1 / 1024) (config switched_to_snow) snow_flake) = 0.8"
proof -
  let ?a = "step_particle (1 / 1024) (config switched_to_snow) drop1"
  let ?b = "step_particle (1 / 1024) (config switched_to_snow) snow_flake"
  have a: "active ?a"
    by (simp add: step_particle_active integrate_position integrate_velocity integrate_life
        addScaledVector_def drop1_fields switched_config)
  have b: "active ?b"
    by (simp add: step_particle_active integrate_position integrate_velocity integrate_life
        addScaledVector_def snow_flake_def switched_config)
  have na: "\<not> active fresh_particle"
    by (simp add: fresh_particle_def)
  show "filter active (particles (particle_phase (1 / 1024) camera0 snow_emission)) = [?a, ?b]"
    using a b na by (simp add: phase_particles snow_emission_fields step_fresh)
  show "size_particle ?a = 0.8"
    using a by (simp add: step_particle_eq integrate_size drop1_fields split: if_splits)
  show "size_particle ?b = 0.8"
    using b by (simp add: step_particle_eq integrate_size snow_flake_def split: if_splits)
qed

lemma sparse_pool_fields:
  "particles sparse_pool = high_drop # fresh_particle # dying_drop # far_drop
                    # replicate 9996 fresh_particle"
  "config sparse_pool = config rain_start"
  "accumulator sparse_pool = 0"
  "instanceMatrix sparse_pool = identity_matrix # replicate 9999 identity_matrix"
  "rand sparse_pool = rand_half"
  "emitterVolume sparse_pool = Box3 (Vector3 (-60) 30 (-60)) (Vector3 60 45 60)"
  by (simp_all add: sparse_pool_def rain_start_fields)

lemma sparse_emission_fields:
  "particles sparse_emission = high_drop # first_drop # dying_drop # far_drop
                    # replicate 9996 fresh_particle"
  "config sparse_emission = config rain_start"
  "instanceMatrix sparse_emission = identity_matrix # replicate 9999 identity_matrix"
  "accumulator sparse_emission = 1628501625257171 / 18446744073709551616"
proof -
  let ?s0 = "sparse_pool\<lparr>accumulator := fl64 (accumulator sparse_pool + 1 / 2048)\<rparr>"
  have f: "find_free (particles ?s0) = Some 1"
    by (simp add: sparse_pool_fields high_drop_def first_drop_def fresh_particle_def)
  show "particles sparse_emission = high_drop # first_drop # dying_drop # far_drop
                    # replicate 9996 fresh_particle"
    unfolding sparse_emission_def emit_step_particles emitParticle_particles[OF f]
    by (simp add: sparse_pool_fields rain_start_config emission_velocity_def randFloat_def
        rand_half_def first_drop_def fresh_particle_def)
  show "config sparse_emission = config rain_start"
    and "instanceMatrix sparse_emission = identity_matrix # replicate 9999 identity_matrix"
    by (simp_all add: sparse_emission_def emit_step_other sparse_pool_fields)
  show "accumulator sparse_emission = 1628501625257171 / 18446744073709551616"
    by (simp add: sparse_emission_def emit_step_other sparse_pool_fields interval_rain
        fl64_small_powers first_rest)
qed

lemma emission_phase_sparse:
  "emission_phase (1 / 2048) sparse_pool = Some sparse_emission"
proof -
  let ?i = "emission_interval (config sparse_pool)"
  let ?s0 = "sparse_pool\<lparr>accumulator := fl64 (accumulator sparse_pool + 1 / 2048)\<rparr>"
  have f: "sparse_emission = (emit_step ?i ^^ 1) ?s0"
    by (simp add: sparse_emission_def)
  have t: "\<forall>k<1. ?i \<le> accumulator ((emit_step ?i ^^ k) ?s0)"
    by (simp add: sparse_pool_fields interval_rain fl64_small_powers)
  have e: "accumulator ((emit_step ?i ^^ 1) ?s0) < ?i"
    using sparse_emission_fields(4) unfolding f by (simp add: sparse_pool_fields interval_rain)
  have nc: "wtype (config sparse_pool) \<noteq> Clear"
    by (simp add: sparse_pool_fields rain_start_config)
  show ?thesis
    unfolding emission_phase_loop[OF nc] f by (rule emit_loop_returns[OF t e])
qed

lemma loop_ends_sparse: "loop_ends (1 / 2048) sparse_pool"
proof -
  have "2 * rounding_slack (1 / 2048) \<le> 7378697629483821 / 18446744073709551616"
    using half_least_subnormal_small by (simp add: rounding_slack_def unit_roundoff_def)
  then show ?thesis
    by (simp add: loop_ends_def sparse_pool_fields interval_rain fl64_small_powers)
qed

lemma sparse_frame:
  "map active (take 5 (particles (particle_phase (1 / 2048) camera0 sparse_emission)))
     = [True, True, False, True, False]"
  "filter active (particles (particle_phase (1 / 2048) camera0 sparse_emission))
     = [step_particle (1 / 2048) (config rain_start) high_drop, drop1,
        step_particle (1 / 2048) (config rain_start) far_drop]"
  "position (step_particle (1 / 2048) (config rain_start) high_drop)
     = Vector3 (2 + 1 / 4096) (44 + (- 18 + - 9.8 * (1 / 2048)) * (1 / 2048)) (- 3)"
  "position (step_particle (1 / 2048) (config rain_start) far_drop)
     = Vector3 (1 + 1 / 4096) (40 + (- 18 + - 9.8 * (1 / 2048)) * (1 / 2048)) 1"
  "size_particle (step_particle (1 / 2048) (config rain_start) high_drop) = 0.8"
  "size_particle (step_particle (1 / 2048) (config rain_start) far_drop) = 0.8"
proof -
  let ?cfg = "config rain_start"
  let ?a = "step_particle (1 / 2048) ?cfg high_drop"
  let ?d = "step_particle (1 / 2048) ?cfg dying_drop"
  let ?b = "step_particle (1 / 2048) ?cfg far_drop"
  have a: "active ?a"
    by (simp add: step_particle_active integrate_position integrate_velocity integrate_life
        addScaledVector_def high_drop_def first_drop_def rain_start_config)
  have d: "\<not> active ?d"
    by (simp add: step_particle_active integrate_life dying_drop_def first_drop_def)
  have b: "active ?b"
    by (simp add: step_particle_active integrate_position integrate_velocity integrate_life
        addScaledVector_def far_drop_def first_drop_def rain_start_config)
  have na: "\<not> active fresh_particle"
    by (simp add: fresh_particle_def)
  have r: "replicate 9996 fresh_particle = fresh_particle # replicate 9995 fresh_particle"
    using replicate_cons[of 9996 fresh_particle] by simp
  have ps: "particles (particle_phase (1 / 2048) camera0 sparse_emission)
      = ?a # drop1 # ?d # ?b # replicate 9996 fresh_particle"
    by (simp add: phase_particles sparse_emission_fields step_fresh drop1_def)
  show "map active (take 5 (particles (particle_phase (1 / 2048) camera0 sparse_emission)))
     = [True, True, False, True, False]"
    unfolding ps r using a d b na drop1_fields(1) by simp
  show "filter active (particles (particle_phase (1 / 2048) camera0 sparse_emission))
     = [?a, drop1, ?b]"
    unfolding ps using a d b na drop1_fields(1) by simp
  show "position ?a
     = Vector3 (2 + 1 / 4096) (44 + (- 18 + - 9.8 * (1 / 2048)) * (1 / 2048)) (- 3)"
    using a by (simp add: step_particle_eq integrate_def Let_def addScaledVector_def
        high_drop_def first_drop_def rain_start_config split: if_splits)
  show "position ?b
     = Vector3 (1 + 1 / 4096) (40 + (- 18 + - 9.8 * (1 / 2048)) * (1 / 2048)) 1"
    using b by (simp add: step_particle_eq integrate_def Let_def addScaledVector_def
        far_drop_def first_drop_def rain_start_config split: if_splits)
  show "size_particle ?a = 0.8"
    using a by (simp add: step_particle_eq integrate_size high_drop_def first_drop_def
        split: if_splits)
  show "size_particle ?b = 0.8"
    using b by (simp add: step_particle_eq integrate_size far_drop_def first_drop_def
        split: if_splits)
qed

lemma rate_144_fields:
  "config rate_144 = \<lparr>emissionRate = 144, lifetime = 2, size_config = 0.8, speed = 18,
      windStrength = 0.5, gravity = - 9.8, wtype = Rain\<rparr>"
  "accumulator rate_144 = 0"
  "emitCalls rate_144 = 0"
  "rand_ix rate_144 = 0"
  "length (particles rate_144) = 10000"
  "length (filter active (particles rate_144)) = 0"
  by (simp_all add: rate_144_def updateConfig_other rain_start_fields rain_start_config
      assign_config_def no_change_def fresh_particle_def)
    (simp add: rate_144_def updateConfig_def Let_def no_change_def rain_start_fields)

lemma interval_144: "fl64 (1 / 144) = 2001599834386887 / 288230376151711744"
  using fl64_eval[of "- 8" "1 / 144"] by (simp add: round_half_even_def Let_def)

lemma all_less_8: "(\<forall>k<8::nat. P k) \<longleftrightarrow> P 0 \<and> P 1 \<and> P 2 \<and> P 3 \<and> P 4 \<and> P 5 \<and> P 6 \<and> P 7"
proof -
  have "k < 8 \<longleftrightarrow> k = 0 \<or> k = 1 \<or> k = 2 \<or> k = 3 \<or> k = 4 \<or> k = 5 \<or> k = 6 \<or> k = 7" for k :: nat
    by presburger
  then show ?thesis by auto
qed

text \<open>
  The accumulator after each pass of the loop at the rate 144, from the accumulator 1/16.
\<close>

lemma passes_144:
  fixes g :: "real \<Rightarrow> real"
  defines "g \<equiv> (\<lambda>a. fl64 (a - 2001599834386887 / 288230376151711744))"
  shows "(g ^^ 0) (1 / 16) = 1 / 16" and "(g ^^ 1) (1 / 16) = 2001599834386887 / 36028797018963968" and "(g ^^ 2) (1 / 16) = 875699927544263 / 18014398509481984" and "(g ^^ 3) (1 / 16) = 1501199875790165 / 36028797018963968" and "(g ^^ 4) (1 / 16) = 312749974122951 / 9007199254740992" and "(g ^^ 5) (1 / 16) = 8006399337547545 / 288230376151711744" and "(g ^^ 6) (1 / 16) = 3002399751580329 / 144115188075855872" and "(g ^^ 7) (1 / 16) = 4003199668773771 / 288230376151711744" and "(g ^^ 8) (1 / 16) = 500399958596721 / 72057594037927936"
proof -
  have e1: "fl64 (16012798675095097 / 288230376151711744) = 2001599834386887 / 36028797018963968"
    using fl64_eval[of "- 5" "16012798675095097 / 288230376151711744"] by (simp add: round_half_even_def Let_def)
  have e2: "fl64 (14011198840708209 / 288230376151711744) = 875699927544263 / 18014398509481984"
    using fl64_eval[of "- 5" "14011198840708209 / 288230376151711744"] by (simp add: round_half_even_def Let_def)
  have e3: "fl64 (12009599006321321 / 288230376151711744) = 1501199875790165 / 36028797018963968"
    using fl64_eval[of "- 5" "12009599006321321 / 288230376151711744"] by (simp add: round_half_even_def Let_def)
  have e4: "fl64 (10007999171934433 / 288230376151711744) = 312749974122951 / 9007199254740992"
    using fl64_eval[of "- 5" "10007999171934433 / 288230376151711744"] by (simp add: round_half_even_def Let_def)
  have e5: "fl64 (8006399337547545 / 288230376151711744) = 8006399337547545 / 288230376151711744"
    using fl64_representable[of "8006399337547545 / 288230376151711744" 8006399337547545 "- 58"] by simp
  have e6: "fl64 (3002399751580329 / 144115188075855872) = 3002399751580329 / 144115188075855872"
    using fl64_representable[of "3002399751580329 / 144115188075855872" 3002399751580329 "- 57"] by simp
  have e7: "fl64 (4003199668773771 / 288230376151711744) = 4003199668773771 / 288230376151711744"
    using fl64_representable[of "4003199668773771 / 288230376151711744" 4003199668773771 "- 58"] by simp
  have e8: "fl64 (500399958596721 / 72057594037927936) = 500399958596721 / 72057594037927936"
    using fl64_representable[of "500399958596721 / 72057594037927936" 500399958596721 "- 56"] by simp
  have s: "g a = fl64 (a - 2001599834386887 / 288230376151711744)" for a
    by (simp add: g_def)
  show p0: "(g ^^ 0) (1 / 16) = 1 / 16"
    by simp
  have "(g ^^ 1) (1 / 16) = g ((g ^^ 0) (1 / 16))"
    by (simp add: eval_nat_numeral)
  then show p1: "(g ^^ 1) (1 / 16) = 2001599834386887 / 36028797018963968"
    unfolding p0 s by (simp add: e1)
  have "(g ^^ 2) (1 / 16) = g ((g ^^ 1) (1 / 16))"
    by (simp add: eval_nat_numeral)
  then show p2: "(g ^^ 2) (1 / 16) = 875699927544263 / 18014398509481984"
    unfolding p1 s by (simp add: e2)
  have "(g ^^ 3) (1 / 16) = g ((g ^^ 2) (1 / 16))"
    by (simp add: eval_nat_numeral)
  then show p3: "(g ^^ 3) (1 / 16) = 1501199875790165 / 36028797018963968"
    unfolding p2 s by (simp add: e3)
  have "(g ^^ 4) (1 / 16) = g ((g ^^ 3) (1 / 16))"
    by (simp add: eval_nat_numeral)
  then show p4: "(g ^^ 4) (1 / 16) = 312749974122951 / 9007199254740992"
    unfolding p3 s by (simp add: e4)
  have "(g ^^ 5) (1 / 16) = g ((g ^^ 4) (1 / 16))"
    by (simp add: eval_nat_numeral)
  then show p5: "(g ^^ 5) (1 / 16) = 8006399337547545 / 288230376151711744"
    unfolding p4 s by (simp add: e5)
  have "(g ^^ 6) (1 / 16) = g ((g ^^ 5) (1 / 16))"
    by (simp add: eval_nat_numeral)
  then show p6: "(g ^^ 6) (1 / 16) = 3002399751580329 / 144115188075855872"
    unfolding p5 s by (simp add: e6)
  have "(g ^^ 7) (1 / 16) = g ((g ^^ 6) (1 / 16))"
    by (simp add: eval_nat_numeral)
  then show p7: "(g ^^ 7) (1 / 16) = 4003199668773771 / 288230376151711744"
    unfolding p6 s by (simp add: e7)
  have "(g ^^ 8) (1 / 16) = g ((g ^^ 7) (1 / 16))"
    by (simp add: eval_nat_numeral)
  then show p8: "(g ^^ 8) (1 / 16) = 500399958596721 / 72057594037927936"
    unfolding p7 s by (simp add: e8)
qed

subsection \<open>Emissions over a sequence of frames\<close>




lemma zero_rate_fields:
  "config zero_rate = \<lparr>emissionRate = 0, lifetime = 2, size_config = 0.8, speed = 18,
      windStrength = 0.5, gravity = - 9.8, wtype = Rain\<rparr>"
  "accumulator zero_rate = 0"
  "emitCalls zero_rate = 0"
  by (simp_all add: zero_rate_def updateConfig_other rain_start_fields rain_start_config
      assign_config_def no_change_def)









subsection \<open>A frame that does not return\<close>

text \<open>
  The loop need not end: when the difference of the accumulator and the interval rounds
  to the accumulator again, the test never fails. At the rate 0 the interval is 1; with
  \<open>dt = 2 ^ 60\<close> the accumulator becomes \<open>2 ^ 60\<close>, and \<open>2 ^ 60 - 1\<close> rounds to \<open>2 ^ 60\<close>.
\<close>

lemma emit_loop_stuck:
  assumes r: "fl64 (a - i) = a" and g: "i \<le> a" and a: "accumulator s = a"
  shows "emit_loop i s = None"
proof -
  have "\<not> (j = i \<and> accumulator u = a)" if "emit_loop j u = Some t" for j u t
  proof (rule emit_loop.raw_induct[OF _ that])
    fix loop :: "real \<Rightarrow> system \<Rightarrow> system option" and i' s' t'
    assume IH: "\<And>j u t. loop j u = Some t \<Longrightarrow> \<not> (j = i \<and> accumulator u = a)"
      and eq: "(if i' \<le> accumulator s' then loop i' (emit_step i' s') else Some s') = Some t'"
    show "\<not> (i' = i \<and> accumulator s' = a)"
    proof
      assume h: "i' = i \<and> accumulator s' = a"
      then have "loop i (emit_step i s') = Some t'"
        using eq g by simp
      from IH[OF this] have "accumulator (emit_step i s') \<noteq> a"
        by simp
      then show False
        using h r by (simp add: emit_step_other)
    qed
  qed
  then show ?thesis
    using a by (cases "emit_loop i s") auto
qed

lemma update_not_returning: "update (2 ^ 60) camera0 zero_rate = None"
proof -
  have i: "emission_interval (config zero_rate) = 1"
    by (simp add: zero_rate_fields emission_interval_def fl64_small_powers)
  have k: "wtype (config zero_rate) \<noteq> Clear"
    by (simp add: zero_rate_fields)
  have b: "fl64 1152921504606846976 = 1152921504606846976"
    using fl64_representable[of "2 ^ 60" 1 60] by simp
  have c: "fl64 1152921504606846975 = 1152921504606846976"
    using fl64_eval[of 59 "2 ^ 60 - 1"] by (simp add: round_half_even_def Let_def)
  have "emit_loop 1 (zero_rate\<lparr>accumulator := fl64 (accumulator zero_rate + 2 ^ 60)\<rparr>) = None"
    by (rule emit_loop_stuck[of "2 ^ 60"]) (simp_all add: zero_rate_fields b c)
  then have "emission_phase (2 ^ 60) zero_rate = None"
    by (simp add: emission_phase_loop[OF k] i)
  then show ?thesis
    by (simp add: update_def)
qed

section \<open>The claims\<close>

subsection \<open>C1: the instance buffer is dense and counted\<close>

text \<open>
  Claim C1. In a system whose instance buffer has room for the pool (as the constructor
  builds it), in the state that a call of \<open>update\<close> returns the instance count
  \<open>mesh_count\<close> is the number of pool slots that are active after the lifecycle pass;
  the buffer entries \<open>0, 1, \<dots>, mesh_count - 1\<close> are the transforms of exactly those
  particles, in pool order; and no entry from \<open>mesh_count\<close> on has changed. The call
  returns when the loop of the scheduler ends, for which \<open>loop_ends\<close> suffices.
\<close>

theorem update_instance_buffer_dense:
  assumes "length (particles s) \<le> length (instanceMatrix s)"
  shows "(loop_ends dt s \<longrightarrow> (\<exists>s'. update dt cam s = Some s')) \<and>
     (\<forall>s'. update dt cam s = Some s' \<longrightarrow>
        mesh_count s' = length (filter active (particles s')) \<and>
        take (mesh_count s') (instanceMatrix s') =
          map (compose_matrix (config s') (cam_quaternion cam)) (filter active (particles s')) \<and>
        drop (mesh_count s') (instanceMatrix s') = drop (mesh_count s') (instanceMatrix s) \<and>
        length (instanceMatrix s') = length (instanceMatrix s))"
proof -
  have "mesh_count s' = length (filter active (particles s')) \<and>
        take (mesh_count s') (instanceMatrix s') =
          map (compose_matrix (config s') (cam_quaternion cam)) (filter active (particles s')) \<and>
        drop (mesh_count s') (instanceMatrix s') = drop (mesh_count s') (instanceMatrix s) \<and>
        length (instanceMatrix s') = length (instanceMatrix s)"
    if u: "update dt cam s = Some s'" for s'
  proof -
    obtain s1 where s1: "emission_phase dt s = Some s1" and s': "s' = particle_phase dt cam s1"
      using update_Some[OF u] by blast
    note pr = emission_phase_preserves[OF s1]
    have inv: "length (particles s1) \<le> length (instanceMatrix s1)"
      using assms pr by simp
    have c: "mesh_count s' = length (filter active (particles s'))"
      by (simp add: s' phase_count phase_particles)
    have b: "instanceMatrix s' =
        map (compose_matrix (config s') (cam_quaternion cam)) (filter active (particles s'))
        @ drop (mesh_count s') (instanceMatrix s)"
      using phase_buffer[OF inv, of dt cam]
      by (simp add: s' phase_count phase_particles phase_other pr)
    have t: "take (mesh_count s') (instanceMatrix s') =
        map (compose_matrix (config s') (cam_quaternion cam)) (filter active (particles s'))"
      by (subst b) (simp add: c)
    have d: "drop (mesh_count s') (instanceMatrix s') = drop (mesh_count s') (instanceMatrix s)"
      by (subst b) (simp add: c)
    have l: "length (instanceMatrix s') = length (instanceMatrix s)"
      by (simp add: s' phase_buffer_length pr)
    show ?thesis using c t d l by blast
  qed
  then show ?thesis
    using update_returns[of dt s cam] by blast
qed

theorem update_instance_buffer_dense_witness:
  "length (particles sparse_pool) \<le> length (instanceMatrix sparse_pool) \<and>
   loop_ends (1 / 2048) sparse_pool \<and>
   map active (take 5 (particles sparse_pool)) = [True, False, True, True, False] \<and>
   (\<exists>s'. update (1 / 2048) camera0 sparse_pool = Some s' \<and>
      map active (take 5 (particles s')) = [True, True, False, True, False] \<and>
      mesh_count s' = 3 \<and>
      take 3 (instanceMatrix s') =
        [compose_matrix (config s') (cam_quaternion camera0) (particles s' ! 0),
         compose_matrix (config s') (cam_quaternion camera0) (particles s' ! 1),
         compose_matrix (config s') (cam_quaternion camera0) (particles s' ! 3)] \<and>
      m_position (instanceMatrix s' ! 0)
        = Vector3 (2 + 1 / 4096) (44 + (- 18 + - 9.8 * (1 / 2048)) * (1 / 2048)) (- 3) \<and>
      m_position (instanceMatrix s' ! 2)
        = Vector3 (1 + 1 / 4096) (40 + (- 18 + - 9.8 * (1 / 2048)) * (1 / 2048)) 1 \<and>
      map m_scale (take 3 (instanceMatrix s'))
        = [Vector3 (0.8 * 0.08) (0.8 * 6.0) 1, Vector3 (0.8 * 0.08) (0.8 * 6.0) 1,
           Vector3 (0.8 * 0.08) (0.8 * 6.0) 1] \<and>
      drop 3 (instanceMatrix s') = replicate 9997 identity_matrix)"
proof -
  let ?s' = "particle_phase (1 / 2048) camera0 sparse_emission"
  let ?cfg = "config rain_start"
  let ?a = "step_particle (1 / 2048) ?cfg high_drop"
  let ?b = "step_particle (1 / 2048) ?cfg far_drop"
  have h: "length (particles sparse_pool) \<le> length (instanceMatrix sparse_pool)"
    by (simp add: sparse_pool_fields)
  have r: "replicate 9996 fresh_particle = fresh_particle # replicate 9995 fresh_particle"
    using replicate_cons[of 9996 fresh_particle] by simp
  have before: "map active (take 5 (particles sparse_pool)) = [True, False, True, True, False]"
    unfolding sparse_pool_fields(1) r
    by (simp add: high_drop_def dying_drop_def far_drop_def first_drop_def fresh_particle_def)
  have u: "update (1 / 2048) camera0 sparse_pool = Some ?s'"
    by (rule update_eq[OF emission_phase_sparse])
  from update_instance_buffer_dense[OF h, of "1 / 2048" camera0] u
  have t: "mesh_count ?s' = length (filter active (particles ?s'))"
      "take (mesh_count ?s') (instanceMatrix ?s') =
        map (compose_matrix (config ?s') (cam_quaternion camera0)) (filter active (particles ?s'))"
      "drop (mesh_count ?s') (instanceMatrix ?s') = drop (mesh_count ?s') (instanceMatrix sparse_pool)"
    by blast+
  have c: "mesh_count ?s' = 3"
    unfolding t(1) sparse_frame(2) by simp
  have cfg: "config ?s' = ?cfg"
    by (simp add: phase_other sparse_emission_fields)
  have tk: "take 3 (instanceMatrix ?s') =
      [compose_matrix ?cfg (cam_quaternion camera0) ?a,
       compose_matrix ?cfg (cam_quaternion camera0) drop1,
       compose_matrix ?cfg (cam_quaternion camera0) ?b]"
    using t(2) unfolding c sparse_frame(2) cfg by simp
  have ps: "particles ?s' ! 0 = ?a" "particles ?s' ! 1 = drop1" "particles ?s' ! 3 = ?b"
    by (simp_all add: phase_particles sparse_emission_fields drop1_def)
  have tk': "take 3 (instanceMatrix ?s') =
      [compose_matrix (config ?s') (cam_quaternion camera0) (particles ?s' ! 0),
       compose_matrix (config ?s') (cam_quaternion camera0) (particles ?s' ! 1),
       compose_matrix (config ?s') (cam_quaternion camera0) (particles ?s' ! 3)]"
    unfolding tk cfg ps ..
  have "instanceMatrix ?s' ! 0 = take 3 (instanceMatrix ?s') ! 0"
    by simp
  then have e0: "instanceMatrix ?s' ! 0 = compose_matrix ?cfg (cam_quaternion camera0) ?a"
    unfolding tk by simp
  have "instanceMatrix ?s' ! 2 = take 3 (instanceMatrix ?s') ! 2"
    by simp
  then have e2: "instanceMatrix ?s' ! 2 = compose_matrix ?cfg (cam_quaternion camera0) ?b"
    unfolding tk by simp
  have p0: "m_position (instanceMatrix ?s' ! 0)
        = Vector3 (2 + 1 / 4096) (44 + (- 18 + - 9.8 * (1 / 2048)) * (1 / 2048)) (- 3)"
    unfolding e0 by (simp add: compose_matrix_def Let_def sparse_frame(3))
  have p2: "m_position (instanceMatrix ?s' ! 2)
        = Vector3 (1 + 1 / 4096) (40 + (- 18 + - 9.8 * (1 / 2048)) * (1 / 2048)) 1"
    unfolding e2 by (simp add: compose_matrix_def Let_def sparse_frame(4))
  have sc: "map m_scale (take 3 (instanceMatrix ?s'))
        = [Vector3 (0.8 * 0.08) (0.8 * 6.0) 1, Vector3 (0.8 * 0.08) (0.8 * 6.0) 1,
           Vector3 (0.8 * 0.08) (0.8 * 6.0) 1]"
  proof -
    have k: "wtype ?cfg = Rain"
      by (simp add: rain_start_config)
    show ?thesis
      unfolding tk by (simp add: compose_matrix_def Let_def sparse_frame(5,6) drop1_fields k)
  qed
  have dr: "drop 3 (instanceMatrix ?s') = replicate 9997 identity_matrix"
    using t(3) unfolding c by (simp add: sparse_pool_fields)
  show ?thesis
    by (intro conjI exI[of _ ?s'] h loop_ends_sparse before u sparse_frame(1) c tk' p0 p2 sc dr)
qed

subsection \<open>C2: the emission scheduler\<close>

text \<open>
  Claim C2. When the kind is not clear, \<open>update\<close> replaces the accumulator by the binary64
  sum of the accumulator and \<open>dt\<close>, and takes as the interval the binary64 quotient of 1
  and \<open>max 1 emissionRate\<close>; the denominator is at least 1, so no division by zero occurs.
  A pass of the loop calls \<open>emitParticle\<close> once, on the state it finds, and replaces the
  accumulator by the binary64 difference of the accumulator and the interval. The
  scheduler returns after \<open>n\<close> passes exactly when the accumulator was at least the
  interval before each of them and is below it after the last, and \<open>update\<close> then runs
  the per-particle pass on that state. The \<open>n\<close> passes have made \<open>n\<close> calls of
  \<open>emitParticle\<close>; these have filled \<open>n\<close> free slots, or every free slot when there were
  fewer, and drawn three random numbers for each slot filled. The loop ends when twice
  the rounding error at the accumulator is at most the interval.
\<close>

theorem emission_scheduler:
  assumes "wtype (config s) \<noteq> Clear"
  shows "let interval = fl64 (1 / max 1 (emissionRate (config s)));
             s0 = s\<lparr>accumulator := fl64 (accumulator s + dt)\<rparr>
         in 1 \<le> max 1 (emissionRate (config s)) \<and>
            (\<forall>k. accumulator ((emit_step interval ^^ Suc k) s0)
                   = fl64 (accumulator ((emit_step interval ^^ k) s0) - interval) \<and>
                 particles ((emit_step interval ^^ Suc k) s0)
                   = particles (emitParticle ((emit_step interval ^^ k) s0))) \<and>
            (\<forall>n. (\<forall>k<n. interval \<le> accumulator ((emit_step interval ^^ k) s0)) \<and>
                 accumulator ((emit_step interval ^^ n) s0) < interval \<longrightarrow>
                 emission_phase dt s = Some ((emit_step interval ^^ n) s0) \<and>
                 update dt cam s = Some (particle_phase dt cam ((emit_step interval ^^ n) s0))) \<and>
            (\<forall>s1. emission_phase dt s = Some s1 \<longrightarrow>
               (\<exists>n. s1 = (emit_step interval ^^ n) s0 \<and>
                  (\<forall>k<n. interval \<le> accumulator ((emit_step interval ^^ k) s0)) \<and>
                  accumulator s1 < interval)) \<and>
            (\<forall>n. length (filter active (particles ((emit_step interval ^^ n) s0)))
                   = min (length (particles s)) (length (filter active (particles s)) + n) \<and>
                 rand_ix ((emit_step interval ^^ n) s0)
                   = rand_ix s + 3 * (length (filter active (particles ((emit_step interval ^^ n) s0)))
                                      - length (filter active (particles s))) \<and>
                 emitCalls ((emit_step interval ^^ n) s0) = emitCalls s + n) \<and>
            (2 * rounding_slack (accumulator s0) \<le> interval \<longrightarrow>
               (\<exists>s1. emission_phase dt s = Some s1))"
proof -
  define interval where "interval = fl64 (1 / max 1 (emissionRate (config s)))"
  define s0 where "s0 = s\<lparr>accumulator := fl64 (accumulator s + dt)\<rparr>"
  have i: "interval = emission_interval (config s)"
    by (simp add: interval_def emission_interval_def)
  have ph: "emission_phase dt s = emit_loop interval s0"
    unfolding i s0_def by (rule emission_phase_loop[OF assms])
  have d: "1 \<le> max 1 (emissionRate (config s))"
    by simp
  have body: "\<forall>k. accumulator ((emit_step interval ^^ Suc k) s0)
                   = fl64 (accumulator ((emit_step interval ^^ k) s0) - interval) \<and>
                 particles ((emit_step interval ^^ Suc k) s0)
                   = particles (emitParticle ((emit_step interval ^^ k) s0))"
    by (simp add: emit_step_other emit_step_particles)
  have ret: "\<forall>n. (\<forall>k<n. interval \<le> accumulator ((emit_step interval ^^ k) s0)) \<and>
                 accumulator ((emit_step interval ^^ n) s0) < interval \<longrightarrow>
                 emission_phase dt s = Some ((emit_step interval ^^ n) s0) \<and>
                 update dt cam s = Some (particle_phase dt cam ((emit_step interval ^^ n) s0))"
  proof (intro allI impI)
    fix n
    assume t: "(\<forall>k<n. interval \<le> accumulator ((emit_step interval ^^ k) s0)) \<and>
                 accumulator ((emit_step interval ^^ n) s0) < interval"
    then have e: "emission_phase dt s = Some ((emit_step interval ^^ n) s0)"
      unfolding ph using emit_loop_returns by blast
    then show "emission_phase dt s = Some ((emit_step interval ^^ n) s0) \<and>
        update dt cam s = Some (particle_phase dt cam ((emit_step interval ^^ n) s0))"
      using update_eq by blast
  qed
  have conv: "\<forall>s1. emission_phase dt s = Some s1 \<longrightarrow>
               (\<exists>n. s1 = (emit_step interval ^^ n) s0 \<and>
                  (\<forall>k<n. interval \<le> accumulator ((emit_step interval ^^ k) s0)) \<and>
                  accumulator s1 < interval)"
    unfolding ph using emit_loop_Some by blast
  have eff: "\<forall>n. length (filter active (particles ((emit_step interval ^^ n) s0)))
                   = min (length (particles s)) (length (filter active (particles s)) + n) \<and>
                 rand_ix ((emit_step interval ^^ n) s0)
                   = rand_ix s + 3 * (length (filter active (particles ((emit_step interval ^^ n) s0)))
                                      - length (filter active (particles s))) \<and>
                 emitCalls ((emit_step interval ^^ n) s0) = emitCalls s + n"
  proof (intro allI conjI)
    fix n
    show "length (filter active (particles ((emit_step interval ^^ n) s0)))
        = min (length (particles s)) (length (filter active (particles s)) + n)"
      using funpow_active_count[where iv = interval and n = n and s = s0] by (simp add: s0_def)
    show "rand_ix ((emit_step interval ^^ n) s0)
        = rand_ix s + 3 * (length (filter active (particles ((emit_step interval ^^ n) s0)))
                           - length (filter active (particles s)))"
      using funpow_rand_ix[where iv = interval and n = n and s = s0] by (simp add: s0_def)
    show "emitCalls ((emit_step interval ^^ n) s0) = emitCalls s + n"
      by (simp add: funpow_emit_step s0_def)
  qed
  have ends: "2 * rounding_slack (accumulator s0) \<le> interval \<longrightarrow>
               (\<exists>s1. emission_phase dt s = Some s1)"
  proof
    assume "2 * rounding_slack (accumulator s0) \<le> interval"
    then have "loop_ends dt s"
      by (simp add: loop_ends_def i s0_def)
    then show "\<exists>s1. emission_phase dt s = Some s1"
      by (rule emission_phase_returns)
  qed
  show ?thesis
    unfolding Let_def
    using d body ret conv eff ends
    unfolding interval_def s0_def by blast
qed

theorem emission_scheduler_witness:
  "wtype (config rate_144) \<noteq> Clear \<and>
   fl64 (1 / max 1 (emissionRate (config rate_144))) = 2001599834386887 / 288230376151711744 \<and>
   fl64 (accumulator rate_144 + 1 / 16) = 1 / 16 \<and>
   nat \<lfloor>(1 / 16) / (1 / 144 :: real)\<rfloor> = 9 \<and>
   emission_phase (1 / 16) rate_144
     = Some ((emit_step (2001599834386887 / 288230376151711744) ^^ 8)
               (rate_144\<lparr>accumulator := 1 / 16\<rparr>)) \<and>
   accumulator ((emit_step (2001599834386887 / 288230376151711744) ^^ 8)
                  (rate_144\<lparr>accumulator := 1 / 16\<rparr>))
     = 500399958596721 / 72057594037927936 \<and>
   emitCalls ((emit_step (2001599834386887 / 288230376151711744) ^^ 8)
                (rate_144\<lparr>accumulator := 1 / 16\<rparr>)) = 8 \<and>
   length (filter active (particles ((emit_step (2001599834386887 / 288230376151711744) ^^ 8)
                (rate_144\<lparr>accumulator := 1 / 16\<rparr>)))) = 8 \<and>
   rand_ix ((emit_step (2001599834386887 / 288230376151711744) ^^ 8)
                (rate_144\<lparr>accumulator := 1 / 16\<rparr>)) = 24"
proof -
  let ?i = "2001599834386887 / 288230376151711744 :: real"
  let ?s0 = "rate_144\<lparr>accumulator := 1 / 16\<rparr>"
  have h: "wtype (config rate_144) \<noteq> Clear"
    by (simp add: rate_144_fields)
  have i: "fl64 (1 / max 1 (emissionRate (config rate_144))) = ?i"
    using interval_144 by (simp add: rate_144_fields)
  have a: "fl64 (accumulator rate_144 + 1 / 16) = 1 / 16"
    using fl64_representable[of "1 / 16" 1 "- 4"] by (simp add: rate_144_fields)
  have q: "nat \<lfloor>(1 / 16) / (1 / 144 :: real)\<rfloor> = 9"
    by simp
  note t = emission_scheduler[OF h, of "1 / 16" camera0, unfolded Let_def i a]
  have acc: "accumulator ((emit_step ?i ^^ k) ?s0) = ((\<lambda>a. fl64 (a - ?i)) ^^ k) (1 / 16)" for k
    by (simp add: funpow_accumulator)
  have tests: "\<forall>k<8. ?i \<le> accumulator ((emit_step ?i ^^ k) ?s0)"
    unfolding all_less_8 acc passes_144 by simp
  have a8: "accumulator ((emit_step ?i ^^ 8) ?s0) = 500399958596721 / 72057594037927936"
    unfolding acc by (rule passes_144(9))
  have stop: "accumulator ((emit_step ?i ^^ 8) ?s0) < ?i"
    unfolding a8 by simp
  have e: "emission_phase (1 / 16) rate_144 = Some ((emit_step ?i ^^ 8) ?s0)"
    using t tests stop by blast
  have eff: "length (filter active (particles ((emit_step ?i ^^ 8) ?s0)))
        = min (length (particles rate_144)) (length (filter active (particles rate_144)) + 8)"
      "rand_ix ((emit_step ?i ^^ 8) ?s0)
        = rand_ix rate_144 + 3 * (length (filter active (particles ((emit_step ?i ^^ 8) ?s0)))
                                 - length (filter active (particles rate_144)))"
      "emitCalls ((emit_step ?i ^^ 8) ?s0) = emitCalls rate_144 + 8"
    using t by blast+
  have c: "length (filter active (particles ((emit_step ?i ^^ 8) ?s0))) = 8"
    unfolding eff(1) by (simp add: rate_144_fields)
  have r: "rand_ix ((emit_step ?i ^^ 8) ?s0) = 24"
    unfolding eff(2) c by (simp add: rate_144_fields)
  have m: "emitCalls ((emit_step ?i ^^ 8) ?s0) = 8"
    unfolding eff(3) by (simp add: rate_144_fields)
  show ?thesis
    by (intro conjI h i a q e a8 m c r)
qed

subsection \<open>C3: the order of the per-particle step\<close>



subsection \<open>C4: the pool is fixed and an emission into a full pool is dropped\<close>

text \<open>
  Claim C4. The constructor builds a pool of 10000 slots, and neither \<open>emitParticle\<close>,
  \<open>updateConfig\<close> nor a call of \<open>update\<close> that returns changes the number of slots;
  \<open>update\<close> returns when the loop of its scheduler ends. When every slot is active,
  \<open>emitParticle\<close> returns the state it was given: nothing is raised, no particle is
  touched and every slot is still active.
\<close>

theorem pool_exhaustion_drops_emission:
  "length (particles (construct cfg rnd)) = 10000 \<and>
   length (particles (emitParticle s)) = length (particles s) \<and>
   length (particles (updateConfig c s)) = length (particles s) \<and>
   (\<forall>s'. update dt cam s = Some s' \<longrightarrow> length (particles s') = length (particles s)) \<and>
   (loop_ends dt s \<longrightarrow> (\<exists>s'. update dt cam s = Some s')) \<and>
   ((\<forall>p\<in>set (particles s). active p) \<longrightarrow>
      emitParticle s = s \<and>
      length (filter active (particles (emitParticle s))) = length (particles s))"
proof -
  have 1: "length (particles (construct cfg rnd)) = 10000"
    by (simp add: construct_def maxParticles_def)
  have 2: "length (particles (emitParticle s)) = length (particles s)"
    by (simp add: emitParticle_other)
  have 3: "length (particles (updateConfig c s)) = length (particles s)"
    by (simp add: updateConfig_other)
  have 4: "\<forall>s'. update dt cam s = Some s' \<longrightarrow> length (particles s') = length (particles s)"
    using update_preserves(2) by blast
  have 5: "loop_ends dt s \<longrightarrow> (\<exists>s'. update dt cam s = Some s')"
    using update_returns by blast
  have 6: "emitParticle s = s \<and>
      length (filter active (particles (emitParticle s))) = length (particles s)"
    if full: "\<forall>p\<in>set (particles s). active p"
  proof -
    have "find_free (particles s) = None"
      using full by (simp add: find_free_None)
    then have "emitParticle s = s"
      by (simp add: emitParticle_def)
    then show ?thesis
      using full by simp
  qed
  show ?thesis using 1 2 3 4 5 6 by blast
qed

theorem pool_exhaustion_drops_emission_witness:
  "list_all active (particles full_pool) \<and>
   length (particles full_pool) = 10000 \<and>
   emitParticle full_pool = full_pool \<and>
   length (filter active (particles (emitParticle full_pool))) = 10000 \<and>
   loop_ends (1 / 16) full_pool \<and>
   (\<exists>s'. update (1 / 16) camera0 full_pool = Some s' \<and> length (particles s') = 10000)"
proof -
  have h: "\<forall>p\<in>set (particles full_pool). active p"
    by (simp add: full_pool_def)
  have l: "length (particles full_pool) = 10000"
    by (simp add: full_pool_def maxParticles_def)
  have e: "loop_ends (1 / 16) full_pool"
    by (simp add: loop_ends_def full_pool_def construct_def initial_config_def)
  note t = pool_exhaustion_drops_emission[of initial_config rand_half full_pool no_change
      "1 / 16" camera0]
  have d: "emitParticle full_pool = full_pool"
      "length (filter active (particles (emitParticle full_pool))) = length (particles full_pool)"
    using t h by blast+
  obtain s' where s': "update (1 / 16) camera0 full_pool = Some s'"
    using t e by blast
  have "length (particles s') = length (particles full_pool)"
    using t s' by blast
  then have u: "\<exists>s'. update (1 / 16) camera0 full_pool = Some s' \<and> length (particles s') = 10000"
    using s' l by auto
  have a: "list_all active (particles full_pool)"
    using h by (simp add: list_all_iff)
  have c: "length (filter active (particles (emitParticle full_pool))) = 10000"
    using d(2) l by simp
  show ?thesis
    by (intro conjI a l d(1) c e u)
qed

subsection \<open>C5: clear weather\<close>

text \<open>
  Claim C5. When the kind is clear, \<open>update\<close> returns and skips the scheduler: the state
  goes to the per-particle pass as it is, no call of \<open>emitParticle\<close> is made, no random
  number is drawn, no inactive slot becomes active and the accumulator keeps its value.
  The same holds over any number of clear frames, so the first frame after a change of
  configuration makes the same number of emissions after these frames as it makes before
  them; that frame returns when the loop of its scheduler ends.
\<close>

theorem clear_leaves_accumulator:
  assumes "wtype (config s) = Clear"
  shows "update dt cam s = Some (particle_phase dt cam s) \<and>
     emission_phase dt s = Some s \<and>
     accumulator (particle_phase dt cam s) = accumulator s \<and>
     emitCalls (particle_phase dt cam s) = emitCalls s \<and>
     rand_ix (particle_phase dt cam s) = rand_ix s \<and>
     (\<forall>i<length (particles s).
        active (particles (particle_phase dt cam s) ! i) \<longrightarrow> active (particles s ! i)) \<and>
     (\<exists>s'. run_frames fs s = Some s' \<and> accumulator s' = accumulator s \<and>
        emitCalls s' = emitCalls s \<and>
        (loop_ends dt' (updateConfig c s) \<longrightarrow>
           (\<exists>t. update dt' cam' (updateConfig c s) = Some t)) \<and>
        (\<forall>t. update dt' cam' (updateConfig c s) = Some t \<longrightarrow>
           (\<exists>t'. update dt' cam' (updateConfig c s') = Some t' \<and>
              emitCalls t' - emitCalls s' = emitCalls t - emitCalls s)))"
proof -
  have e: "emission_phase dt s = Some s"
    using assms by (simp add: emission_phase_clear)
  have u: "update dt cam s = Some (particle_phase dt cam s)"
    by (rule update_eq[OF e])
  have act: "\<forall>i<length (particles s).
        active (particles (particle_phase dt cam s) ! i) \<longrightarrow> active (particles s ! i)"
    by (simp add: phase_particles step_particle_active)
  obtain s' where s': "run_frames fs s = Some s'" "accumulator s' = accumulator s"
     "emitCalls s' = emitCalls s" "config s' = config s"
    using run_frames_clear[OF assms, of fs] by blast
  have r: "\<forall>t. update dt' cam' (updateConfig c s) = Some t \<longrightarrow>
           (\<exists>t'. update dt' cam' (updateConfig c s') = Some t' \<and>
              emitCalls t' - emitCalls s' = emitCalls t - emitCalls s)"
  proof (intro allI impI)
    fix t assume t: "update dt' cam' (updateConfig c s) = Some t"
    have "\<exists>t'. update dt' cam' (updateConfig c s') = Some t' \<and>
        emitCalls t' - emitCalls (updateConfig c s') = emitCalls t - emitCalls (updateConfig c s)"
      by (rule update_same_schedule[OF _ _ t]) (simp_all add: updateConfig_other s')
    then show "\<exists>t'. update dt' cam' (updateConfig c s') = Some t' \<and>
        emitCalls t' - emitCalls s' = emitCalls t - emitCalls s"
      by (simp add: updateConfig_other)
  qed
  have q: "loop_ends dt' (updateConfig c s) \<longrightarrow>
      (\<exists>t. update dt' cam' (updateConfig c s) = Some t)"
    using update_returns by blast
  have "\<exists>s'. run_frames fs s = Some s' \<and> accumulator s' = accumulator s \<and>
        emitCalls s' = emitCalls s \<and>
        (loop_ends dt' (updateConfig c s) \<longrightarrow>
           (\<exists>t. update dt' cam' (updateConfig c s) = Some t)) \<and>
        (\<forall>t. update dt' cam' (updateConfig c s) = Some t \<longrightarrow>
           (\<exists>t'. update dt' cam' (updateConfig c s') = Some t' \<and>
              emitCalls t' - emitCalls s' = emitCalls t - emitCalls s))"
    using s' r q by blast
  then show ?thesis
    using e u act by (simp add: phase_other)
qed

theorem clear_leaves_accumulator_witness:
  "wtype (config (construct initial_config rand_half)) = Clear \<and>
   update (1 / 16) camera0 (construct initial_config rand_half)
     = Some (particle_phase (1 / 16) camera0 (construct initial_config rand_half)) \<and>
   accumulator (particle_phase (1 / 16) camera0 (construct initial_config rand_half)) = 0 \<and>
   emitCalls (particle_phase (1 / 16) camera0 (construct initial_config rand_half)) = 0"
proof -
  have h: "wtype (config (construct initial_config rand_half)) = Clear"
    by (simp add: construct_def initial_config_def)
  have a: "accumulator (construct initial_config rand_half) = 0"
       "emitCalls (construct initial_config rand_half) = 0"
    by (simp_all add: construct_def)
  show ?thesis
    using h a clear_leaves_accumulator[OF h, where dt = "1 / 16" and cam = camera0
        and fs = "[]" and dt' = 0 and cam' = camera0 and c = no_change]
    by simp
qed

subsection \<open>C6: a change from rain to snow\<close>

text \<open>
  Claim C6, as stated, fails. A drop is emitted in a rain frame and drawn with the rain
  scale \<open>(size * 0.08, size * 6.0)\<close>; the kind is changed to snow; in the next frame the
  same drop, still active, is drawn with the scale \<open>(size, size)\<close>: it does not keep its
  rain shape.
\<close>

theorem rain_scale_not_retained_counterexample:
  "update (1 / 2048) camera0 rain_start = Some after_rain_frame \<and>
   active (particles after_rain_frame ! 0) \<and>
   m_scale (instanceMatrix after_rain_frame ! 0) = Vector3 (0.8 * 0.08) (0.8 * 6.0) 1 \<and>
   update (1 / 2048) camera0 (updateConfig snow_preset after_rain_frame) = Some after_snow_frame \<and>
   active (particles after_snow_frame ! 0) \<and>
   size_particle (particles after_snow_frame ! 0) = 0.8 \<and>
   mesh_count after_snow_frame = 1 \<and>
   m_scale (instanceMatrix after_snow_frame ! 0) = Vector3 0.8 0.8 1 \<and>
   m_scale (instanceMatrix after_snow_frame ! 0) \<noteq> Vector3 (0.8 * 0.08) (0.8 * 6.0) 1"
proof -
  have u1: "update (1 / 2048) camera0 rain_start = Some after_rain_frame"
    by (simp add: update_def emission_phase_rain_start after_rain_frame_def)
  have a1: "active (particles after_rain_frame ! 0)"
    by (simp add: after_rain_frame_fields drop1_fields)
  have m1: "m_scale (instanceMatrix after_rain_frame ! 0) = Vector3 (0.8 * 0.08) (0.8 * 6.0) 1"
    by (simp add: after_rain_frame_fields compose_matrix_def Let_def drop1_fields)
      (simp add: rain_start_config)
  have u2: "update (1 / 2048) camera0 (updateConfig snow_preset after_rain_frame)
      = Some after_snow_frame"
    using update_after_switch by (simp add: switched_to_snow_def)
  let ?s = "switched_to_snow\<lparr>accumulator := fl64 (accumulator switched_to_snow + 1 / 2048)\<rparr>"
  let ?p = "step_particle (1 / 2048) (config ?s) drop1"
  have ps: "particles ?s = drop1 # replicate 9999 fresh_particle"
    by (simp add: switched_to_snow_def updateConfig_other after_rain_frame_fields)
  have bs: "instanceMatrix ?s = compose_matrix (config rain_start) (cam_quaternion camera0) drop1
       # replicate 9999 identity_matrix"
    by (simp add: switched_to_snow_def updateConfig_other after_rain_frame_fields)
  have ap: "active ?p"
    by (simp add: step_particle_active integrate_position integrate_velocity integrate_life
        addScaledVector_def drop1_fields switched_config)
  have sz: "size_particle ?p = 0.8"
    using ap by (simp add: step_particle_eq integrate_size drop1_fields split: if_splits)
  note s = single_active_phase[OF ps ap bs, of camera0, folded after_snow_frame_def]
  have a2: "active (particles after_snow_frame ! 0)"
    using ap by (simp add: s(1))
  have z2: "size_particle (particles after_snow_frame ! 0) = 0.8"
    using sz by (simp add: s(1))
  have c2: "mesh_count after_snow_frame = 1"
    by (rule s(2))
  have m2: "m_scale (instanceMatrix after_snow_frame ! 0) = Vector3 0.8 0.8 1"
    using sz by (simp add: s(3) compose_matrix_def Let_def switched_config)
  have ne: "m_scale (instanceMatrix after_snow_frame ! 0) \<noteq> Vector3 (0.8 * 0.08) (0.8 * 6.0) 1"
    by (simp add: m2)
  show ?thesis
    using u1 a1 m1 u2 a2 z2 c2 m2 ne by blast
qed

text \<open>
  Claim C6, amended. After a change of the kind to snow, every particle the scheduler
  of the next frame emits gets the velocity \<open>(0, - speed * 0.5, 0)\<close>, and every particle
  drawn by that frame, whenever it was emitted, is drawn with the isotropic scale
  \<open>(size, size, 1)\<close>: the scale follows the current kind. Here \<open>s1\<close> is any state that
  the scheduler of the frame returns; it returns one when its loop ends, for which
  \<open>loop_ends\<close> suffices.
\<close>

theorem scale_follows_current_kind:
  assumes "p_type c = Some Snow"
      and "length (particles s) \<le> length (instanceMatrix s)"
  shows "wtype (config (updateConfig c s)) = Snow \<and>
     (loop_ends dt (updateConfig c s) \<longrightarrow>
        (\<exists>s1. emission_phase dt (updateConfig c s) = Some s1)) \<and>
     (\<forall>s1. emission_phase dt (updateConfig c s) = Some s1 \<longrightarrow>
        update dt cam (updateConfig c s) = Some (particle_phase dt cam s1) \<and>
        (\<forall>i<length (particles s).
           \<not> active (particles s ! i) \<and> active (particles s1 ! i) \<longrightarrow>
             velocity (particles s1 ! i)
               = Vector3 0 (- speed (config (updateConfig c s)) * 0.5) 0) \<and>
        take (mesh_count (particle_phase dt cam s1)) (instanceMatrix (particle_phase dt cam s1)) =
          map (\<lambda>p. Compose (position p) (cam_quaternion cam)
                      (Vector3 (size_particle p) (size_particle p) 1))
              (filter active (particles (particle_phase dt cam s1))))"
proof -
  let ?s2 = "updateConfig c s"
  have k: "wtype (config ?s2) = Snow"
    using assms(1) by (simp add: updateConfig_other assign_config_def)
  have nc: "wtype (config ?s2) \<noteq> Clear"
    using k by simp
  let ?iv = "emission_interval (config ?s2)"
  let ?s0 = "?s2\<lparr>accumulator := fl64 (accumulator ?s2 + dt)\<rparr>"
  have ret: "loop_ends dt ?s2 \<longrightarrow> (\<exists>s1. emission_phase dt ?s2 = Some s1)"
    using emission_phase_returns by blast
  have ev: "emission_velocity (config ?s2) = Vector3 0 (- speed (config ?s2) * 0.5) 0"
    using k by (simp add: emission_velocity_def)
  have main: "update dt cam ?s2 = Some (particle_phase dt cam s1) \<and>
      (\<forall>i<length (particles s).
         \<not> active (particles s ! i) \<and> active (particles s1 ! i) \<longrightarrow>
           velocity (particles s1 ! i) = Vector3 0 (- speed (config ?s2) * 0.5) 0) \<and>
      take (mesh_count (particle_phase dt cam s1)) (instanceMatrix (particle_phase dt cam s1)) =
        map (\<lambda>p. Compose (position p) (cam_quaternion cam)
                    (Vector3 (size_particle p) (size_particle p) 1))
            (filter active (particles (particle_phase dt cam s1)))"
    if e: "emission_phase dt ?s2 = Some s1" for s1
  proof -
    obtain n where s1: "s1 = (emit_step ?iv ^^ n) ?s0"
      using e emit_loop_Some unfolding emission_phase_loop[OF nc] by blast
    have u: "update dt cam ?s2 = Some (particle_phase dt cam s1)"
      by (rule update_eq[OF e])
    have v: "\<forall>i<length (particles s).
             \<not> active (particles s ! i) \<and> active (particles s1 ! i) \<longrightarrow>
               velocity (particles s1 ! i) = Vector3 0 (- speed (config ?s2) * 0.5) 0"
    proof (intro allI impI)
      fix i
      assume i: "i < length (particles s)"
        and a: "\<not> active (particles s ! i) \<and> active (particles s1 ! i)"
      have i0: "i < length (particles ?s0)"
        using i by (simp add: updateConfig_other)
      have p0: "particles ?s0 ! i = particles s ! i"
        by (simp add: updateConfig_other)
      from funpow_slot[OF i0, where iv = ?iv and n = n] a p0
      have "velocity (particles s1 ! i) = emission_velocity (config ?s0)"
        unfolding s1 by auto
      then show "velocity (particles s1 ! i) = Vector3 0 (- speed (config ?s2) * 0.5) 0"
        using ev by simp
    qed
    note pr = emission_phase_preserves[OF e]
    have inv: "length (particles s1) \<le> length (instanceMatrix s1)"
      using assms(2) by (simp add: pr updateConfig_other)
    have cm: "compose_matrix (config s1) (cam_quaternion cam)
        = (\<lambda>p. Compose (position p) (cam_quaternion cam)
                  (Vector3 (size_particle p) (size_particle p) 1))"
      using k by (simp add: compose_matrix_def Let_def pr fun_eq_iff)
    have b: "take (mesh_count (particle_phase dt cam s1)) (instanceMatrix (particle_phase dt cam s1)) =
        map (\<lambda>p. Compose (position p) (cam_quaternion cam)
                    (Vector3 (size_particle p) (size_particle p) 1))
            (filter active (particles (particle_phase dt cam s1)))"
      using phase_buffer[OF inv, of dt cam]
      by (simp add: phase_count phase_particles cm)
    show ?thesis
      using u v b by blast
  qed
  show ?thesis
    using k ret main by blast
qed

theorem scale_follows_current_kind_witness:
  "p_type snow_preset = Some Snow \<and>
   length (particles after_rain_frame) \<le> length (instanceMatrix after_rain_frame) \<and>
   loop_ends (1 / 1024) (updateConfig snow_preset after_rain_frame) \<and>
   emission_phase (1 / 1024) (updateConfig snow_preset after_rain_frame) = Some snow_emission \<and>
   active (particles after_rain_frame ! 0) \<and>
   \<not> active (particles after_rain_frame ! 1) \<and>
   active (particles snow_emission ! 1) \<and>
   velocity (particles snow_emission ! 1) = Vector3 0 (- (3 / 2)) 0 \<and>
   update (1 / 1024) camera0 (updateConfig snow_preset after_rain_frame)
     = Some (particle_phase (1 / 1024) camera0 snow_emission) \<and>
   mesh_count (particle_phase (1 / 1024) camera0 snow_emission) = 2 \<and>
   map m_scale (take 2 (instanceMatrix (particle_phase (1 / 1024) camera0 snow_emission)))
     = [Vector3 0.8 0.8 1, Vector3 0.8 0.8 1]"
proof -
  have h1: "p_type snow_preset = Some Snow"
    by (simp add: snow_preset_def no_change_def)
  have h2: "length (particles after_rain_frame) \<le> length (instanceMatrix after_rain_frame)"
    by (simp add: after_rain_frame_fields)
  have h3: "emission_phase (1 / 1024) (updateConfig snow_preset after_rain_frame)
      = Some snow_emission"
    using emission_phase_snow by (simp add: switched_to_snow_def)
  note t0 = scale_follows_current_kind[OF h1 h2, of "1 / 1024" camera0]
  have t: "update (1 / 1024) camera0 (updateConfig snow_preset after_rain_frame)
        = Some (particle_phase (1 / 1024) camera0 snow_emission) \<and>
      (\<forall>i<length (particles after_rain_frame).
         \<not> active (particles after_rain_frame ! i) \<and> active (particles snow_emission ! i) \<longrightarrow>
           velocity (particles snow_emission ! i)
             = Vector3 0 (- speed (config (updateConfig snow_preset after_rain_frame)) * 0.5) 0) \<and>
      take (mesh_count (particle_phase (1 / 1024) camera0 snow_emission))
          (instanceMatrix (particle_phase (1 / 1024) camera0 snow_emission)) =
        map (\<lambda>p. Compose (position p) (cam_quaternion camera0)
                    (Vector3 (size_particle p) (size_particle p) 1))
            (filter active (particles (particle_phase (1 / 1024) camera0 snow_emission)))"
    using t0 h3 by blast
  have le: "loop_ends (1 / 1024) (updateConfig snow_preset after_rain_frame)"
  proof -
    have a0: "fl64 (accumulator switched_to_snow + 1 / 1024)
        = 4910725033684789 / 4611686018427387904"
      using fl64_eval[of "- 10" "1628501625257171 / 18446744073709551616 + 1 / 1024"]
      by (simp add: round_half_even_def Let_def switched_fields)
    have "2 * rounding_slack (4910725033684789 / 4611686018427387904)
        \<le> 6148914691236517 / 9223372036854775808"
      using half_least_subnormal_small by (simp add: rounding_slack_def unit_roundoff_def)
    then have "loop_ends (1 / 1024) switched_to_snow"
      by (simp add: loop_ends_def a0 snow_interval)
    then show ?thesis
      by (simp add: switched_to_snow_def)
  qed
  have r: "replicate 9999 fresh_particle = fresh_particle # replicate 9998 fresh_particle"
    using replicate_cons[of 9999 fresh_particle] by simp
  have a0: "active (particles after_rain_frame ! 0)"
    by (simp add: after_rain_frame_fields drop1_fields)
  have a1: "\<not> active (particles after_rain_frame ! 1)"
    unfolding after_rain_frame_fields(1) r by (simp add: fresh_particle_def)
  have a2: "active (particles snow_emission ! 1)"
    by (simp add: snow_emission_fields snow_flake_def)
  have l: "1 < length (particles after_rain_frame)"
    by (simp add: after_rain_frame_fields)
  have sp: "speed (config (updateConfig snow_preset after_rain_frame)) = 3"
    using switched_config by (simp add: switched_to_snow_def)
  have v: "velocity (particles snow_emission ! 1) = Vector3 0 (- (3 / 2)) 0"
    using t l a1 a2 sp by simp
  have u: "update (1 / 1024) camera0 (updateConfig snow_preset after_rain_frame)
     = Some (particle_phase (1 / 1024) camera0 snow_emission)"
    using t by blast
  have "mesh_count (particle_phase (1 / 1024) camera0 snow_emission)
      = length (filter active (particles (particle_phase (1 / 1024) camera0 snow_emission)))"
    by (simp add: phase_count phase_particles)
  then have c: "mesh_count (particle_phase (1 / 1024) camera0 snow_emission) = 2"
    unfolding snow_frame_particles(1) by simp
  have b: "take (mesh_count (particle_phase (1 / 1024) camera0 snow_emission))
        (instanceMatrix (particle_phase (1 / 1024) camera0 snow_emission)) =
       map (\<lambda>p. Compose (position p) (cam_quaternion camera0)
                   (Vector3 (size_particle p) (size_particle p) 1))
           (filter active (particles (particle_phase (1 / 1024) camera0 snow_emission)))"
    using t by blast
  have m: "map m_scale (take 2 (instanceMatrix (particle_phase (1 / 1024) camera0 snow_emission)))
     = [Vector3 0.8 0.8 1, Vector3 0.8 0.8 1]"
    using b unfolding c snow_frame_particles(1) by (simp add: snow_frame_particles(2,3))
  show ?thesis
    by (intro conjI h1 h2 le h3 a0 a1 a2 v u c m)
qed

subsection \<open>C7: the number of emissions over a sequence of frames\<close>




subsection \<open>C8: negative configuration values\<close>

text \<open>
  Claim C8, as stated, fails: \<open>updateConfig\<close> with the rate \<open>-5\<close> and the lifetime \<open>-1\<close>
  stores both, and the next particle emitted gets the remaining life \<open>-1\<close>.
\<close>

theorem negative_config_not_clamped_counterexample:
  "emissionRate (config (updateConfig negative_config rain_start)) = - 5 \<and>
   lifetime (config (updateConfig negative_config rain_start)) = - 1 \<and>
   active (particles (emitParticle (updateConfig negative_config rain_start)) ! 0) \<and>
   life (particles (emitParticle (updateConfig negative_config rain_start)) ! 0) = - 1 \<and>
   life (particles (emitParticle (updateConfig negative_config rain_start)) ! 0) < 0"
proof -
  let ?s = "updateConfig negative_config rain_start"
  have c: "config ?s = \<lparr>emissionRate = - 5, lifetime = - 1, size_config = 0.8, speed = 18,
      windStrength = 0.5, gravity = - 9.8, wtype = Rain\<rparr>"
    by (simp add: updateConfig_other rain_start_config assign_config_def negative_config_def
        no_change_def)
  have f: "find_free (particles ?s) = Some 0"
    by (simp add: updateConfig_other rain_start_fields fresh_particle_def)
  have p: "active (particles (emitParticle ?s) ! 0) \<and> life (particles (emitParticle ?s) ! 0) = - 1"
    using c by (simp add: emitParticle_particles[OF f] updateConfig_other rain_start_fields)
  show ?thesis
    using p by (simp add: c)
qed

text \<open>
  Claim C8, amended. \<open>updateConfig\<close> stores the rate and the lifetime it is given,
  negative or not. The rate reaches the scheduler only through the denominator
  \<open>max 1 emissionRate\<close>, which is at least 1, so for a rate of at most 1 the interval is
  one second. The lifetime is assigned as it is to the remaining life of the next
  particle emitted; when it is not positive, the lifetime check of the per-particle step
  deactivates that particle for every non-negative \<open>dt\<close>.
\<close>

theorem updateConfig_stores_verbatim:
  "(p_emissionRate c = Some r \<longrightarrow>
      emissionRate (config (updateConfig c s)) = r \<and>
      (r \<le> 1 \<longrightarrow> emission_interval (config (updateConfig c s)) = 1)) \<and>
   1 \<le> max 1 (emissionRate (config (updateConfig c s))) \<and>
   (p_lifetime c = Some l \<longrightarrow>
      lifetime (config (updateConfig c s)) = l \<and>
      (find_free (particles s) = Some i \<longrightarrow>
         active (particles (emitParticle (updateConfig c s)) ! i) \<and>
         life (particles (emitParticle (updateConfig c s)) ! i) = l \<and>
         (l \<le> 0 \<and> 0 \<le> dt \<longrightarrow>
            \<not> active (step_particle dt (config (updateConfig c s))
                          (particles (emitParticle (updateConfig c s)) ! i)))))"
proof -
  let ?s = "updateConfig c s"
  have r: "emissionRate (config ?s) = r \<and> (r \<le> 1 \<longrightarrow> emission_interval (config ?s) = 1)"
    if "p_emissionRate c = Some r"
    using that
    by (simp add: updateConfig_other assign_config_def emission_interval_def fl64_small_powers)
  have l: "lifetime (config ?s) = l" if "p_lifetime c = Some l"
    using that by (simp add: updateConfig_other assign_config_def)
  have e: "active (particles (emitParticle ?s) ! i) \<and>
      life (particles (emitParticle ?s) ! i) = l \<and>
      (l \<le> 0 \<and> 0 \<le> dt \<longrightarrow>
         \<not> active (step_particle dt (config ?s) (particles (emitParticle ?s) ! i)))"
    if pl: "p_lifetime c = Some l" and ff: "find_free (particles s) = Some i"
  proof -
    have f: "find_free (particles ?s) = Some i"
      using ff by (simp add: updateConfig_other)
    have i: "i < length (particles ?s)"
      using find_free_Some[OF f] by simp
    have a: "active (particles (emitParticle ?s) ! i)"
      using i by (simp add: emitParticle_particles[OF f])
    have v: "life (particles (emitParticle ?s) ! i) = l"
      using i by (simp add: emitParticle_particles[OF f] l[OF pl])
    have d: "l \<le> 0 \<and> 0 \<le> dt \<longrightarrow>
        \<not> active (step_particle dt (config ?s) (particles (emitParticle ?s) ! i))"
      by (simp add: step_particle_active integrate_life v)
    show ?thesis
      using a v d by blast
  qed
  have "1 \<le> max 1 (emissionRate (config ?s))"
    by simp
  then show ?thesis
    using r l e by blast
qed

theorem updateConfig_stores_verbatim_witness:
  "p_emissionRate negative_config = Some (- 5) \<and>
   p_lifetime negative_config = Some (- 1) \<and>
   find_free (particles rain_start) = Some 0 \<and>
   emissionRate (config (updateConfig negative_config rain_start)) = - 5 \<and>
   lifetime (config (updateConfig negative_config rain_start)) = - 1 \<and>
   emission_interval (config (updateConfig negative_config rain_start)) = 1 \<and>
   \<not> active (step_particle (1 / 16) (config (updateConfig negative_config rain_start))
                (particles (emitParticle (updateConfig negative_config rain_start)) ! 0))"
proof -
  have h1: "p_emissionRate negative_config = Some (- 5)"
    by (simp add: negative_config_def no_change_def)
  have h2: "p_lifetime negative_config = Some (- 1)"
    by (simp add: negative_config_def no_change_def)
  have h3: "find_free (particles rain_start) = Some 0"
    by (simp add: rain_start_fields fresh_particle_def)
  show ?thesis
    using h1 h2 h3
      updateConfig_stores_verbatim[of negative_config "- 5" rain_start "- 1" 0 "1 / 16"]
    by simp
qed

subsection \<open>C9: the count before the first update\<close>

text \<open>
  Claim C9. Right after construction \<open>getCount\<close> is 10000, the capacity handed to the
  instanced mesh, although no particle is active, and a change of configuration leaves
  it there; in the state that a call of \<open>update\<close> returns, from any state, \<open>getCount\<close> is
  the number of active particles. The call returns when the loop of the scheduler ends.
\<close>

theorem getCount_after_construction:
  "getCount (construct cfg rnd) = 10000 \<and>
   length (filter active (particles (construct cfg rnd))) = 0 \<and>
   getCount (updateConfig c (construct cfg rnd)) = 10000 \<and>
   (\<forall>s'. update dt cam s = Some s' \<longrightarrow> getCount s' = length (filter active (particles s'))) \<and>
   (loop_ends dt s \<longrightarrow> (\<exists>s'. update dt cam s = Some s'))"
proof -
  have "\<forall>s'. update dt cam s = Some s' \<longrightarrow> getCount s' = length (filter active (particles s'))"
  proof (intro allI impI)
    fix s' assume "update dt cam s = Some s'"
    then obtain s1 where "s' = particle_phase dt cam s1"
      using update_Some by blast
    then show "getCount s' = length (filter active (particles s'))"
      by (simp add: getCount_def phase_count phase_particles)
  qed
  moreover have "getCount (construct cfg rnd) = 10000"
    by (simp add: getCount_def construct_def InstancedMesh_new_def maxParticles_def)
  moreover have "length (filter active (particles (construct cfg rnd))) = 0"
    by (simp add: construct_def fresh_particle_def)
  moreover have "getCount (updateConfig c (construct cfg rnd)) = 10000"
    by (simp add: getCount_def updateConfig_def Let_def construct_def InstancedMesh_new_def
        maxParticles_def split: option.splits)
  moreover have "loop_ends dt s \<longrightarrow> (\<exists>s'. update dt cam s = Some s')"
    using update_returns by blast
  ultimately show ?thesis by blast
qed

theorem getCount_after_construction_witness:
  "getCount rain_start = 10000 \<and>
   length (filter active (particles rain_start)) = 0 \<and>
   loop_ends (1 / 2048) rain_start \<and>
   update (1 / 2048) camera0 rain_start = Some after_rain_frame \<and>
   getCount after_rain_frame = 1 \<and>
   length (filter active (particles after_rain_frame)) = 1"
proof -
  have g: "getCount rain_start = 10000"
    using getCount_after_construction[of initial_config rand_half rain_preset]
    by (simp add: rain_start_def)
  have z: "length (filter active (particles rain_start)) = 0"
    by (simp add: rain_start_fields fresh_particle_def)
  have e: "loop_ends (1 / 2048) rain_start"
  proof -
    have "2 * rounding_slack (1 / 2048) \<le> 7378697629483821 / 18446744073709551616"
    proof -
      have "(2::real) powi (- 1075) \<le> 2 powi (- 64)"
        by (rule power_int_increasing) simp_all
      then show ?thesis
        by (simp add: rounding_slack_def unit_roundoff_def half_least_subnormal_def)
    qed
    then show ?thesis
      by (simp add: loop_ends_def rain_start_fields interval_rain fl64_small_powers)
  qed
  have u: "update (1 / 2048) camera0 rain_start = Some after_rain_frame"
    by (simp add: update_def emission_phase_rain_start after_rain_frame_def)
  have a: "length (filter active (particles after_rain_frame)) = 1"
    by (simp add: after_rain_frame_fields drop1_fields fresh_particle_def)
  have "getCount after_rain_frame = length (filter active (particles after_rain_frame))"
    using u getCount_after_construction[of initial_config rand_half no_change "1 / 2048" camera0 rain_start]
    by blast
  then show ?thesis
    using g z e u a by simp
qed

subsection \<open>C10: an emitted particle is processed in its emission frame\<close>



end
